theory Spec2Isabelle
  imports Main "HOL-Library.Sublist"
begin

section \<open>Data model\<close>

text \<open>
  The body of the create-employee request, \<^verbatim>\<open>{ first_name, last_name }\<close>, and an
  employee as the server returns it: the same two names and a numeric \<^verbatim>\<open>id\<close>.
\<close>

record new_employee =
  first_name :: string
  last_name :: string

record employee = new_employee +
  emp_id :: int

text \<open>
  Modelled from the spec: the type declarations of \<^verbatim>\<open>./types\<close> and
  \<^verbatim>\<open>@shared/schema\<close> are not part of the sources. An apartment carries its
  identifier and the fields the modal reads; the optional ones (start time, end time,
  notes) may be null, which is \<open>None\<close> here. Status and payment status arrive as JSON
  strings.
\<close>

record apartment =
  apt_id :: int
  apt_name :: string
  apt_cleaning_date :: string
  apt_start_time :: "string option"
  apt_end_time :: "string option"
  apt_status :: string
  apt_payment_status :: string
  apt_notes :: "string option"
  apt_employees :: "employee list"

text \<open>
  The \<^verbatim>\<open>apartment\<close> property is an object: a reference and the content found there.
  \<^verbatim>\<open>useEffect\<close> compares a dependency with the one of the previous render by
  \<^verbatim>\<open>Object.is\<close>: two objects are the same when they are the same reference, whatever
  their content; \<^verbatim>\<open>undefined\<close> is the same as itself and differs from every object.
\<close>

type_synonym apartment_object = "nat \<times> apartment"

fun same_reference :: "apartment_object option \<Rightarrow> apartment_object option \<Rightarrow> bool" where
  "same_reference None None = True"
| "same_reference (Some (r, _)) (Some (r', _)) = (r = r')"
| "same_reference _ _ = False"

text \<open>
  The closed sets of the two enumerations, as \<^verbatim>\<open>z.enum\<close> lists them and as the two
  \<^verbatim>\<open>Select\<close> controls offer them.
\<close>

definition statuses :: "string list" where
  "statuses = [''Da Fare'', ''In Corso'', ''Fatto'']"

definition payment_statuses :: "string list" where
  "payment_statuses = [''Da Pagare'', ''Pagato'']"

text \<open>
  An apartment is well typed when its two enumerated fields hold a member of their
  closed set (the TypeScript type of the record).
\<close>

definition apartment_typed :: "apartment \<Rightarrow> bool" where
  "apartment_typed a =
     (List.member statuses (apt_status a) \<and> List.member payment_statuses (apt_payment_status a))"

text \<open>
  The values of the form, \<^verbatim>\<open>ApartmentFormData\<close>. The three optional fields may be
  \<^verbatim>\<open>undefined\<close>, which is \<open>None\<close>.
\<close>

record form_data =
  name :: string
  cleaning_date :: string
  start_time :: "string option"
  end_time :: "string option"
  status :: string
  payment_status :: string
  "notes" :: "string option"
  employee_ids :: "int list"

section \<open>Validation schemas\<close>

text \<open>
  An issue of a failed parse: the path of the field and the message. The combinators
  are the ones the schemas use: \<^verbatim>\<open>z.string().min(n, msg)\<close>,
  \<^verbatim>\<open>z.string().optional()\<close>, \<^verbatim>\<open>z.enum([...])\<close> and
  \<^verbatim>\<open>z.array(z.number())\<close>, each applied to a value of the field's type. The
  source gives \<^verbatim>\<open>z.enum\<close> no message; the library's own is shortened here.
\<close>

type_synonym issue = "string \<times> string"

definition z_string_min :: "nat \<Rightarrow> string \<Rightarrow> string \<Rightarrow> string \<Rightarrow> issue list" where
  "z_string_min n msg path s = (if length s < n then [(path, msg)] else [])"

definition z_string_optional :: "string \<Rightarrow> string option \<Rightarrow> issue list" where
  "z_string_optional path s = []"

definition z_enum :: "string list \<Rightarrow> string \<Rightarrow> string \<Rightarrow> issue list" where
  "z_enum vs path s = (if List.member vs s then [] else [(path, ''Invalid enum value'')])"

definition z_array_number :: "string \<Rightarrow> int list \<Rightarrow> issue list" where
  "z_array_number path xs = []"

definition msg_name_required :: string where
  "msg_name_required = ''Il nome '' @ [CHR 0xC3, CHR 0xA8] @ '' obbligatorio''"

definition msg_date_required :: string where
  "msg_date_required = ''La data '' @ [CHR 0xC3, CHR 0xA8] @ '' obbligatoria''"

definition msg_last_name_required :: string where
  "msg_last_name_required = ''Il cognome '' @ [CHR 0xC3, CHR 0xA8] @ '' obbligatorio''"

text \<open>\<^verbatim>\<open>formSchema\<close> of ApartmentModal.tsx (the variant with inline employee creation).\<close>

definition formSchema_issues :: "form_data \<Rightarrow> issue list" where
  "formSchema_issues v =
     z_string_min 1 msg_name_required ''name'' (name v)
     @ z_string_min 1 msg_date_required ''cleaning_date'' (cleaning_date v)
     @ z_string_optional ''start_time'' (start_time v)
     @ z_string_optional ''end_time'' (end_time v)
     @ z_enum [''Da Fare'', ''In Corso'', ''Fatto''] ''status'' (status v)
     @ z_enum [''Da Pagare'', ''Pagato''] ''payment_status'' (payment_status v)
     @ z_string_optional ''notes'' (notes v)
     @ z_array_number ''employee_ids'' (employee_ids v)"

definition formSchema :: "form_data \<Rightarrow> issue list + form_data" where
  "formSchema v = (if formSchema_issues v = [] then Inr v else Inl (formSchema_issues v))"

text \<open>\<^verbatim>\<open>formSchema\<close> of the second variant (the file without inline employee creation).\<close>

definition formSchema_issues_p0 :: "form_data \<Rightarrow> issue list" where
  "formSchema_issues_p0 v =
     z_string_min 1 msg_name_required ''name'' (name v)
     @ z_string_min 1 msg_date_required ''cleaning_date'' (cleaning_date v)
     @ z_string_optional ''start_time'' (start_time v)
     @ z_string_optional ''end_time'' (end_time v)
     @ z_enum [''Da Fare'', ''In Corso'', ''Fatto''] ''status'' (status v)
     @ z_enum [''Da Pagare'', ''Pagato''] ''payment_status'' (payment_status v)
     @ z_string_optional ''notes'' (notes v)
     @ z_array_number ''employee_ids'' (employee_ids v)"

definition formSchema_p0 :: "form_data \<Rightarrow> issue list + form_data" where
  "formSchema_p0 v = (if formSchema_issues_p0 v = [] then Inr v else Inl (formSchema_issues_p0 v))"

text \<open>\<^verbatim>\<open>newEmployeeSchema\<close>: both names at least one character long.\<close>

definition newEmployeeSchema_issues :: "new_employee \<Rightarrow> issue list" where
  "newEmployeeSchema_issues e =
     z_string_min 1 msg_name_required ''first_name'' (first_name e)
     @ z_string_min 1 msg_last_name_required ''last_name'' (last_name e)"

definition newEmployeeSchema :: "new_employee \<Rightarrow> issue list + new_employee" where
  "newEmployeeSchema e =
     (if newEmployeeSchema_issues e = [] then Inr e else Inl (newEmployeeSchema_issues e))"

section \<open>Form values from the target apartment\<close>

text \<open>
  \<^verbatim>\<open>x || d\<close> on a value that is a string, null or undefined: null, undefined and the
  empty string are falsy and give \<open>d\<close>.
\<close>

definition js_or :: "string option \<Rightarrow> string \<Rightarrow> string" where
  "js_or x d = (case x of None \<Rightarrow> d | Some s \<Rightarrow> if s = [] then d else s)"

text \<open>
  The object both \<^verbatim>\<open>useForm({ defaultValues })\<close> and \<^verbatim>\<open>form.reset\<close> receive.
  \<^verbatim>\<open>apartment?.f\<close> is undefined when there is no apartment.
\<close>

definition defaultValues :: "apartment option \<Rightarrow> form_data" where
  "defaultValues apt =
     \<lparr> name = js_or (map_option apt_name apt) '''',
       cleaning_date = js_or (map_option apt_cleaning_date apt) '''',
       start_time = Some (js_or (Option.bind apt apt_start_time) ''''),
       end_time = Some (js_or (Option.bind apt apt_end_time) ''''),
       status = js_or (map_option apt_status apt) ''Da Fare'',
       payment_status = js_or (map_option apt_payment_status apt) ''Da Pagare'',
       notes = Some (js_or (Option.bind apt apt_notes) ''''),
       employee_ids = (case apt of None \<Rightarrow> [] | Some a \<Rightarrow> map emp_id (apt_employees a)) \<rparr>"

definition defaultValues_p0 :: "apartment option \<Rightarrow> form_data" where
  "defaultValues_p0 apt =
     \<lparr> name = js_or (map_option apt_name apt) '''',
       cleaning_date = js_or (map_option apt_cleaning_date apt) '''',
       start_time = Some (js_or (Option.bind apt apt_start_time) ''''),
       end_time = Some (js_or (Option.bind apt apt_end_time) ''''),
       status = js_or (map_option apt_status apt) ''Da Fare'',
       payment_status = js_or (map_option apt_payment_status apt) ''Da Pagare'',
       notes = Some (js_or (Option.bind apt apt_notes) ''''),
       employee_ids = (case apt of None \<Rightarrow> [] | Some a \<Rightarrow> map emp_id (apt_employees a)) \<rparr>"

section \<open>The employee checklist\<close>

text \<open>
  \<^verbatim>\<open>checked={field.value?.includes(employee.id)}\<close>: the checkbox of an employee is
  checked exactly when the id occurs in the field's value.
\<close>

definition checked :: "int list \<Rightarrow> int \<Rightarrow> bool" where
  "checked fv c = List.member fv c"

text \<open>
  \<^verbatim>\<open>onCheckedChange\<close> of the first variant: the new value of \<^verbatim>\<open>employee_ids\<close> that
  is handed to \<^verbatim>\<open>field.onChange\<close>.
\<close>

definition onCheckedChange :: "bool \<Rightarrow> int list \<Rightarrow> int \<Rightarrow> int list" where
  "onCheckedChange chk fv c = (if chk then fv @ [c] else filter (\<lambda>v. v \<noteq> c) fv)"

text \<open>\<^verbatim>\<open>onCheckedChange\<close> of the second variant.\<close>

definition onCheckedChange_p0 :: "bool \<Rightarrow> int list \<Rightarrow> int \<Rightarrow> int list" where
  "onCheckedChange_p0 chk fv c = (if chk then fv @ [c] else filter (\<lambda>v. v \<noteq> c) fv)"

text \<open>
  Modelled from the spec: the \<^verbatim>\<open>Checkbox\<close> component is not part of the sources. It
  is controlled by its \<^verbatim>\<open>checked\<close> property, and a click reports the opposite state
  to the handler (unchecking removes the id, checking adds it).
\<close>

definition click_checkbox :: "(bool \<Rightarrow> int list \<Rightarrow> int \<Rightarrow> int list) \<Rightarrow> int \<Rightarrow> int list \<Rightarrow> int list" where
  "click_checkbox handler c fv = handler (\<not> checked fv c) fv c"

section \<open>Employee search\<close>

text \<open>\<^verbatim>\<open>s.includes(t)\<close>: \<open>t\<close> starts at some position of \<open>s\<close>.\<close>

fun str_includes :: "string \<Rightarrow> string \<Rightarrow> bool" where
  "str_includes [] t = (t = [])"
| "str_includes (x # xs) t = (prefix t (x # xs) \<or> str_includes xs t)"

text \<open>The template string \<^verbatim>\<open>`${employee.first_name} ${employee.last_name}`\<close>.\<close>

definition fullName :: "employee \<Rightarrow> string" where
  "fullName e = first_name e @ '' '' @ last_name e"

text \<open>
  \<^verbatim>\<open>filteredEmployees\<close>. A text is the list of its UTF-8 bytes. The first parameter is
  \<^verbatim>\<open>String.prototype.toLowerCase\<close>, the built-in of the runtime: it follows the
  Unicode case mappings, which are not part of the sources.
\<close>

definition filteredEmployees :: "(string \<Rightarrow> string) \<Rightarrow> employee list \<Rightarrow> string \<Rightarrow> employee list" where
  "filteredEmployees toLowerCase emps employeeSearch =
     (if employeeSearch = [] then emps
      else filter (\<lambda>e. str_includes (toLowerCase (fullName e)) (toLowerCase employeeSearch)) emps)"

text \<open>
  What the built-in does on ASCII text: each of \<open>A\<close> to \<open>Z\<close> (codes 65 to 90) moves
  to \<open>a\<close> to \<open>z\<close>, every other ASCII character stays.
\<close>

definition toLowerCase_ascii :: "char \<Rightarrow> char" where
  "toLowerCase_ascii c =
     (let n = (of_char c :: nat) in if 65 \<le> n \<and> n \<le> 90 then char_of (n + 32) else c)"

definition ascii_text :: "string \<Rightarrow> bool" where
  "ascii_text s = list_all (\<lambda>c. (of_char c :: nat) < 128) s"

definition lowers_ascii :: "(string \<Rightarrow> string) \<Rightarrow> bool" where
  "lowers_ascii toLowerCase = (\<forall>s. ascii_text s \<longrightarrow> toLowerCase s = map toLowerCase_ascii s)"

text \<open>
  The words of the specification: two characters are the same letter up to case, and
  a name contains a search string case-insensitively when some contiguous part of the
  name matches it letter by letter. The letters with two cases known here are the
  ASCII ones; every character matches itself, so a name that contains the search
  string as written contains it case-insensitively.
\<close>

definition is_upper :: "char \<Rightarrow> bool" where
  "is_upper c = (65 \<le> (of_char c :: nat) \<and> (of_char c :: nat) \<le> 90)"

definition eq_ignore_case :: "char \<Rightarrow> char \<Rightarrow> bool" where
  "eq_ignore_case a b =
     (a = b \<or> (is_upper a \<and> (of_char b :: nat) = of_char a + 32)
            \<or> (is_upper b \<and> (of_char a :: nat) = of_char b + 32))"

definition contains_ignoring_case :: "string \<Rightarrow> string \<Rightarrow> bool" where
  "contains_ignoring_case s t =
     (\<exists>before part after. s = before @ part @ after \<and> list_all2 eq_ignore_case part t)"

text \<open>
  Three Greek texts in capital letters, as UTF-8 bytes: the first name NIKOS (nu, iota,
  kappa, omicron, sigma), the last name MELAS (mu, epsilon, lambda, alpha, sigma) and the
  single letter capital sigma.
\<close>

definition greek_NIKOS :: string where
  "greek_NIKOS = [CHR 0xCE, CHR 0x9D, CHR 0xCE, CHR 0x99, CHR 0xCE, CHR 0x9A, CHR 0xCE, CHR 0x9F, CHR 0xCE, CHR 0xA3]"

definition greek_MELAS :: string where
  "greek_MELAS = [CHR 0xCE, CHR 0x9C, CHR 0xCE, CHR 0x95, CHR 0xCE, CHR 0x9B, CHR 0xCE, CHR 0x91, CHR 0xCE, CHR 0xA3]"

definition greek_SIGMA :: string where
  "greek_SIGMA = [CHR 0xCE, CHR 0xA3]"

text \<open>
  The values of the built-in at two of these texts, as the runtime computes them. In
  "NIKOS MELAS" each capital sigma ends a word and becomes the final small sigma (bytes
  CF 82); the capital sigma on its own becomes the small sigma (bytes CF 83).
  \<open>toLowerCase_sample\<close> is the built-in on these two texts and on ASCII text; it is
  applied to no other text.
\<close>

definition toLowerCase_values :: "(string \<times> string) list" where
  "toLowerCase_values =
     [(greek_NIKOS @ '' '' @ greek_MELAS,
       [CHR 0xCE, CHR 0xBD, CHR 0xCE, CHR 0xB9, CHR 0xCE, CHR 0xBA, CHR 0xCE, CHR 0xBF, CHR 0xCF, CHR 0x82, CHR 0x20, CHR 0xCE, CHR 0xBC, CHR 0xCE, CHR 0xB5, CHR 0xCE, CHR 0xBB, CHR 0xCE, CHR 0xB1, CHR 0xCF, CHR 0x82]),
      (greek_SIGMA, [CHR 0xCF, CHR 0x83])]"

definition toLowerCase_sample :: "string \<Rightarrow> string" where
  "toLowerCase_sample s =
     (case map_of toLowerCase_values s of Some l \<Rightarrow> l | None \<Rightarrow> map toLowerCase_ascii s)"

section \<open>The modal as a state machine\<close>

text \<open>
  What the component does to the outside, in order: the two callbacks of its
  properties, the notifications (title, description, variant) and the two requests of
  the inline employee creation.
\<close>

datatype effect =
  OnSubmit form_data
| OnClose
| Toast string string "string option"
| ApiRequest string string new_employee
| InvalidateQueries string

text \<open>
  The second variant holds its properties (\<^verbatim>\<open>isOpen\<close>, \<^verbatim>\<open>apartment\<close>,
  \<^verbatim>\<open>employees\<close>) and the values of its form; \<open>log\<close> records the effects so far.
  The first variant adds the three \<^verbatim>\<open>useState\<close> cells.
\<close>

record modal_p0 =
  isOpen :: bool
  apartment :: "apartment_object option"
  employees :: "employee list"
  form :: form_data
  log :: "effect list"

record modal = modal_p0 +
  showAddEmployee :: bool
  newEmployee :: new_employee
  employeeSearch :: string

text \<open>
  Modelled from the spec: \<^verbatim>\<open>handleSubmit\<close> of the form library is not part of the
  sources. It runs the resolver on the current values and calls the submit callback
  with the validated values when there is no issue; otherwise it calls nothing. The
  result lists the calls made.
\<close>

definition handleSubmit :: "(form_data \<Rightarrow> issue list + form_data) \<Rightarrow> form_data \<Rightarrow> effect list" where
  "handleSubmit resolver v = (case resolver v of Inr d \<Rightarrow> [OnSubmit d] | Inl _ \<Rightarrow> [])"

text \<open>
  \<^verbatim>\<open>handleAddNewEmployee\<close>. The two parameters are the outcomes of the awaited
  calls, should they be reached: \<open>None\<close> when the promise resolves, \<open>Some msg\<close> when
  it rejects with an error of that message.
\<close>

definition handleAddNewEmployee :: "string option \<Rightarrow> string option \<Rightarrow> modal \<Rightarrow> modal" where
  "handleAddNewEmployee api refetch m =
     (case newEmployeeSchema (newEmployee m) of
        Inl _ \<Rightarrow>
          m\<lparr>log := log m @
            [Toast ''Errore'' ''Nome e cognome sono obbligatori.'' (Some ''destructive'')]\<rparr>
      | Inr _ \<Rightarrow>
          (case api of
             Some msg \<Rightarrow>
               m\<lparr>log := log m @
                 [ApiRequest ''POST'' ''/api/employees'' (newEmployee m),
                  Toast ''Errore'' (''Errore durante l'' @ [CHR 0x27] @ ''aggiunta: '' @ msg)
                    (Some ''destructive'')]\<rparr>
           | None \<Rightarrow>
               (case refetch of
                  Some msg \<Rightarrow>
                    m\<lparr>log := log m @
                      [ApiRequest ''POST'' ''/api/employees'' (newEmployee m),
                       InvalidateQueries ''/api/employees'',
                       Toast ''Errore'' (''Errore durante l'' @ [CHR 0x27] @ ''aggiunta: '' @ msg)
                         (Some ''destructive'')]\<rparr>
                | None \<Rightarrow>
                    m\<lparr>log := log m @
                      [ApiRequest ''POST'' ''/api/employees'' (newEmployee m),
                       InvalidateQueries ''/api/employees'',
                       Toast ''Successo'' ''Dipendente aggiunto con successo.'' None],
                      newEmployee := \<lparr>first_name = '''', last_name = ''''\<rparr>,
                      showAddEmployee := False\<rparr>)))"

text \<open>The body of \<^verbatim>\<open>useEffect\<close>, in each variant.\<close>

definition resetEffect :: "modal \<Rightarrow> modal" where
  "resetEffect m =
     (if isOpen m
      then m\<lparr>form := defaultValues (map_option snd (apartment m)), employeeSearch := '''',
             showAddEmployee := False\<rparr>
      else m)"

definition resetEffect_p0 :: "modal_p0 \<Rightarrow> modal_p0" where
  "resetEffect_p0 m =
     (if isOpen m then m\<lparr>form := defaultValues_p0 (map_option snd (apartment m))\<rparr> else m)"

text \<open>
  Mounting: \<^verbatim>\<open>useState\<close> and \<^verbatim>\<open>useForm\<close> take their initial values, then the effect
  runs once.
\<close>

definition mount :: "bool \<Rightarrow> apartment_object option \<Rightarrow> employee list \<Rightarrow> modal" where
  "mount io apt emps =
     resetEffect
       \<lparr> isOpen = io, apartment = apt, employees = emps,
         form = defaultValues (map_option snd apt), log = [],
         showAddEmployee = False, newEmployee = \<lparr>first_name = '''', last_name = ''''\<rparr>,
         employeeSearch = '''' \<rparr>"

definition mount_p0 :: "bool \<Rightarrow> apartment_object option \<Rightarrow> employee list \<Rightarrow> modal_p0" where
  "mount_p0 io apt emps =
     resetEffect_p0
       \<lparr> isOpen = io, apartment = apt, employees = emps,
         form = defaultValues_p0 (map_option snd apt), log = [] \<rparr>"

text \<open>
  A render with new properties: the effect runs when \<^verbatim>\<open>isOpen\<close> differs from
  the previous render or \<^verbatim>\<open>apartment\<close> is not the same reference as in the
  previous render (\<^verbatim>\<open>form.reset\<close>, the third dependency, is stable).
\<close>

definition render :: "bool \<Rightarrow> apartment_object option \<Rightarrow> employee list \<Rightarrow> modal \<Rightarrow> modal" where
  "render io apt emps m =
     (if io = isOpen m \<and> same_reference apt (apartment m)
      then m\<lparr>apartment := apt, employees := emps\<rparr>
      else resetEffect (m\<lparr>isOpen := io, apartment := apt, employees := emps\<rparr>))"

definition render_p0 :: "bool \<Rightarrow> apartment_object option \<Rightarrow> employee list \<Rightarrow> modal_p0 \<Rightarrow> modal_p0" where
  "render_p0 io apt emps m =
     (if io = isOpen m \<and> same_reference apt (apartment m)
      then m\<lparr>apartment := apt, employees := emps\<rparr>
      else resetEffect_p0 (m\<lparr>isOpen := io, apartment := apt, employees := emps\<rparr>))"

text \<open>
  The events of the component: a render by the parent, the edits of the form controls,
  a click on the checkbox of an employee (by id), the two buttons of the form, and,
  in the first variant only, the search box and the inline employee creation.
\<close>

datatype event =
  Render bool "apartment_object option" "employee list"
| ChangeName string
| ChangeCleaningDate string
| ChangeStartTime string
| ChangeEndTime string
| SelectStatus string
| SelectPaymentStatus string
| ChangeNotes string
| ClickCheckbox int
| ClickSubmit
| ClickClose
| ChangeSearch string
| ClickToggleAddEmployee
| ChangeNewFirstName string
| ChangeNewLastName string
| ClickAddEmployee "string option" "string option"

fun shared :: "event \<Rightarrow> bool" where
  "shared (ChangeSearch _) = False"
| "shared ClickToggleAddEmployee = False"
| "shared (ChangeNewFirstName _) = False"
| "shared (ChangeNewLastName _) = False"
| "shared (ClickAddEmployee _ _) = False"
| "shared _ = True"

text \<open>
  The handlers of the first variant, on an open modal. A \<^verbatim>\<open>Select\<close> offers only
  its items; a checkbox exists for each employee of \<^verbatim>\<open>filteredEmployees\<close>; the
  inputs of the new employee exist while \<^verbatim>\<open>showAddEmployee\<close> holds. The first
  parameter is the built-in \<^verbatim>\<open>toLowerCase\<close> that \<^verbatim>\<open>filteredEmployees\<close> calls.
\<close>

fun interact :: "(string \<Rightarrow> string) \<Rightarrow> event \<Rightarrow> modal \<Rightarrow> modal" where
  "interact lc (Render _ _ _) m = m"
| "interact lc (ChangeName s) m = m\<lparr>form := (form m)\<lparr>name := s\<rparr>\<rparr>"
| "interact lc (ChangeCleaningDate s) m = m\<lparr>form := (form m)\<lparr>cleaning_date := s\<rparr>\<rparr>"
| "interact lc (ChangeStartTime s) m = m\<lparr>form := (form m)\<lparr>start_time := Some s\<rparr>\<rparr>"
| "interact lc (ChangeEndTime s) m = m\<lparr>form := (form m)\<lparr>end_time := Some s\<rparr>\<rparr>"
| "interact lc (SelectStatus s) m =
     (if List.member [''Da Fare'', ''In Corso'', ''Fatto''] s
      then m\<lparr>form := (form m)\<lparr>status := s\<rparr>\<rparr> else m)"
| "interact lc (SelectPaymentStatus s) m =
     (if List.member [''Da Pagare'', ''Pagato''] s
      then m\<lparr>form := (form m)\<lparr>payment_status := s\<rparr>\<rparr> else m)"
| "interact lc (ChangeNotes s) m = m\<lparr>form := (form m)\<lparr>notes := Some s\<rparr>\<rparr>"
| "interact lc (ClickCheckbox c) m =
     (if List.member (map emp_id (filteredEmployees lc (employees m) (employeeSearch m))) c
      then m\<lparr>form := (form m)\<lparr>employee_ids :=
             click_checkbox onCheckedChange c (employee_ids (form m))\<rparr>\<rparr>
      else m)"
| "interact lc ClickSubmit m = m\<lparr>log := log m @ handleSubmit formSchema (form m)\<rparr>"
| "interact lc ClickClose m = m\<lparr>log := log m @ [OnClose]\<rparr>"
| "interact lc (ChangeSearch s) m = m\<lparr>employeeSearch := s\<rparr>"
| "interact lc ClickToggleAddEmployee m = m\<lparr>showAddEmployee := \<not> showAddEmployee m\<rparr>"
| "interact lc (ChangeNewFirstName s) m =
     (if showAddEmployee m then m\<lparr>newEmployee := (newEmployee m)\<lparr>first_name := s\<rparr>\<rparr> else m)"
| "interact lc (ChangeNewLastName s) m =
     (if showAddEmployee m then m\<lparr>newEmployee := (newEmployee m)\<lparr>last_name := s\<rparr>\<rparr> else m)"
| "interact lc (ClickAddEmployee api refetch) m =
     (if showAddEmployee m then handleAddNewEmployee api refetch m else m)"

text \<open>The handlers of the second variant; it has no control for the last five events.\<close>

fun interact_p0 :: "event \<Rightarrow> modal_p0 \<Rightarrow> modal_p0" where
  "interact_p0 (ChangeName s) m = m\<lparr>form := (form m)\<lparr>name := s\<rparr>\<rparr>"
| "interact_p0 (ChangeCleaningDate s) m = m\<lparr>form := (form m)\<lparr>cleaning_date := s\<rparr>\<rparr>"
| "interact_p0 (ChangeStartTime s) m = m\<lparr>form := (form m)\<lparr>start_time := Some s\<rparr>\<rparr>"
| "interact_p0 (ChangeEndTime s) m = m\<lparr>form := (form m)\<lparr>end_time := Some s\<rparr>\<rparr>"
| "interact_p0 (SelectStatus s) m =
     (if List.member [''Da Fare'', ''In Corso'', ''Fatto''] s
      then m\<lparr>form := (form m)\<lparr>status := s\<rparr>\<rparr> else m)"
| "interact_p0 (SelectPaymentStatus s) m =
     (if List.member [''Da Pagare'', ''Pagato''] s
      then m\<lparr>form := (form m)\<lparr>payment_status := s\<rparr>\<rparr> else m)"
| "interact_p0 (ChangeNotes s) m = m\<lparr>form := (form m)\<lparr>notes := Some s\<rparr>\<rparr>"
| "interact_p0 (ClickCheckbox c) m =
     (if List.member (map emp_id (employees m)) c
      then m\<lparr>form := (form m)\<lparr>employee_ids :=
             click_checkbox onCheckedChange_p0 c (employee_ids (form m))\<rparr>\<rparr>
      else m)"
| "interact_p0 ClickSubmit m = m\<lparr>log := log m @ handleSubmit formSchema_p0 (form m)\<rparr>"
| "interact_p0 ClickClose m = m\<lparr>log := log m @ [OnClose]\<rparr>"
| "interact_p0 _ m = m"

text \<open>
  One step: a render is always possible; the controls exist only while the modal is
  open (\<^verbatim>\<open>if (!isOpen) return null\<close>).
\<close>

definition step :: "(string \<Rightarrow> string) \<Rightarrow> event \<Rightarrow> modal \<Rightarrow> modal" where
  "step lc ev m =
     (case ev of
        Render io apt emps \<Rightarrow> render io apt emps m
      | _ \<Rightarrow> if isOpen m then interact lc ev m else m)"

definition step_p0 :: "event \<Rightarrow> modal_p0 \<Rightarrow> modal_p0" where
  "step_p0 ev m =
     (case ev of
        Render io apt emps \<Rightarrow> render_p0 io apt emps m
      | _ \<Rightarrow> if isOpen m then interact_p0 ev m else m)"

text \<open>What the first variant shares with the second: its properties, form and effects.\<close>

definition view :: "modal \<Rightarrow> modal_p0" where
  "view m =
     \<lparr> isOpen = isOpen m, apartment = apartment m, employees = employees m, form = form m,
       log = log m \<rparr>"

section \<open>Statistics page and employee card\<close>

text \<open>\<^verbatim>\<open>StatisticsData\<close>, the payload of the statistics request.\<close>

record top_employee =
  te_name :: string
  te_count :: int

record busiest_day =
  bd_date :: string
  bd_count :: int

record statistics_data =
  totalOrders :: int
  topEmployee :: top_employee
  orderStatusCounts :: "(string \<times> int) list"
  paymentStatusCounts :: "(string \<times> int) list"
  ordersByMonth :: "(string \<times> int) list"
  busiestDay :: busiest_day

text \<open>
  \<^verbatim>\<open>formattedBusiestDay\<close>. The first parameter is \<^verbatim>\<open>formatDateForDisplay\<close> of
  \<^verbatim>\<open>@/lib/date-utils\<close>, which is not part of the sources.
\<close>

definition formattedBusiestDay :: "(string \<Rightarrow> string) \<Rightarrow> statistics_data \<Rightarrow> string" where
  "formattedBusiestDay formatDateForDisplay stats =
     (if bd_date (busiestDay stats) \<noteq> ''N/A''
      then formatDateForDisplay (bd_date (busiestDay stats))
      else ''N/A'')"

text \<open>The two cards that print a count and a noun: the count and the noun chosen.\<close>

definition topEmployeeCard :: "statistics_data \<Rightarrow> string \<times> int \<times> string" where
  "topEmployeeCard stats =
     (te_name (topEmployee stats), te_count (topEmployee stats),
      if te_count (topEmployee stats) = 1 then ''ordine'' else ''ordini'')"

definition busiestDayCard :: "(string \<Rightarrow> string) \<Rightarrow> statistics_data \<Rightarrow> string \<times> int \<times> string" where
  "busiestDayCard formatDateForDisplay stats =
     (formattedBusiestDay formatDateForDisplay stats, bd_count (busiestDay stats),
      if bd_count (busiestDay stats) = 1 then ''ordine'' else ''ordini'')"

text \<open>
  \<^verbatim>\<open>EmployeeWithAssignedApartments\<close>: an employee with the apartments assigned to
  it. The card prints the full name, \<^verbatim>\<open>employee.apartments.length\<close> and the noun.
\<close>

record employee_with_apartments = employee +
  apartments :: "apartment list"

definition assignmentCount :: "employee_with_apartments \<Rightarrow> nat" where
  "assignmentCount e = length (apartments e)"

definition EmployeeCard :: "employee_with_apartments \<Rightarrow> string \<times> nat \<times> string" where
  "EmployeeCard e =
     (first_name e @ '' '' @ last_name e, assignmentCount e,
      if assignmentCount e = 1 then ''ordine assegnato'' else ''ordini assegnati'')"

section \<open>Observations used by the properties\<close>

text \<open>The effects a handler added to the log, between the state before and after.\<close>

definition issued :: "modal \<Rightarrow> modal \<Rightarrow> effect list" where
  "issued m m' = drop (length (log m)) (log m')"

fun is_request :: "effect \<Rightarrow> bool" where
  "is_request (ApiRequest _ _ _) = True"
| "is_request _ = False"

text \<open>
  The words of the specification: the current values of an apartment, as a form
  shows them. A null start time, end time or notes shows as the empty text.
\<close>

definition apartment_values :: "apartment \<Rightarrow> form_data" where
  "apartment_values b =
     \<lparr> name = apt_name b, cleaning_date = apt_cleaning_date b,
       start_time = Some (case apt_start_time b of None \<Rightarrow> '''' | Some s \<Rightarrow> s),
       end_time = Some (case apt_end_time b of None \<Rightarrow> '''' | Some s \<Rightarrow> s),
       status = apt_status b, payment_status = apt_payment_status b,
       notes = Some (case apt_notes b of None \<Rightarrow> '''' | Some s \<Rightarrow> s),
       employee_ids = map emp_id (apt_employees b) \<rparr>"

section \<open>Validation of the apartment form\<close>

lemma formSchema_issues_empty:
  "formSchema_issues v = [] \<longleftrightarrow>
     name v \<noteq> '''' \<and> cleaning_date v \<noteq> ''''
     \<and> status v \<in> {''Da Fare'', ''In Corso'', ''Fatto''}
     \<and> payment_status v \<in> {''Da Pagare'', ''Pagato''}"
  by (auto simp: formSchema_issues_def z_string_min_def z_string_optional_def z_enum_def
      z_array_number_def)

lemma formSchema_issues_p0_eq: "formSchema_issues_p0 v = formSchema_issues v"
  by (simp add: formSchema_issues_p0_def formSchema_issues_def)

lemma formSchema_p0_eq: "formSchema_p0 v = formSchema v"
  by (simp add: formSchema_p0_def formSchema_def formSchema_issues_p0_eq)

lemma handleSubmit_formSchema:
  "handleSubmit formSchema v = (if formSchema_issues v = [] then [OnSubmit v] else [])"
  by (simp add: handleSubmit_def formSchema_def)

lemma handleSubmit_p0_eq: "handleSubmit formSchema_p0 v = handleSubmit formSchema v"
  by (simp add: handleSubmit_def formSchema_p0_eq)

text \<open>
  Claim C4. Submitting the form calls the submit callback, with the values of the form,
  exactly when the name and the cleaning date are non-empty, the status is one of
  the three status values and the payment status one of the two payment values;
  otherwise no call is made. Start time, end time and notes have no influence: whether
  they are absent or hold any text, the outcome is the same. Both variants agree, and
  the submit button does exactly this.
\<close>

theorem submit_callback_iff_valid:
  "(handleSubmit formSchema v = [OnSubmit v] \<longleftrightarrow>
      name v \<noteq> '''' \<and> cleaning_date v \<noteq> ''''
      \<and> status v \<in> {''Da Fare'', ''In Corso'', ''Fatto''}
      \<and> payment_status v \<in> {''Da Pagare'', ''Pagato''})
   \<and> (handleSubmit formSchema v = [] \<longleftrightarrow>
      \<not> (name v \<noteq> '''' \<and> cleaning_date v \<noteq> ''''
      \<and> status v \<in> {''Da Fare'', ''In Corso'', ''Fatto''}
      \<and> payment_status v \<in> {''Da Pagare'', ''Pagato''}))
   \<and> handleSubmit formSchema_p0 v = handleSubmit formSchema v
   \<and> (handleSubmit formSchema (v\<lparr>start_time := st, end_time := et, notes := nt\<rparr>) = []
        \<longleftrightarrow> handleSubmit formSchema v = [])
   \<and> log (interact lc ClickSubmit m) = log m @ handleSubmit formSchema (form m)
   \<and> log (interact_p0 ClickSubmit m0) = log m0 @ handleSubmit formSchema_p0 (form m0)"
proof -
  have "formSchema_issues (v\<lparr>start_time := st, end_time := et, notes := nt\<rparr>) = []
          \<longleftrightarrow> formSchema_issues v = []"
    by (simp add: formSchema_issues_empty)
  then show ?thesis
    by (simp add: handleSubmit_p0_eq handleSubmit_formSchema formSchema_issues_empty)
qed

section \<open>Initial and reset values\<close>

text \<open>
  Claim C10. With no apartment, the values the form starts with and is reset to are the
  empty string for name, cleaning date, start time, end time and notes, the status
  "Da Fare", the payment status "Da Pagare" and no employee id, in both variants. With
  an apartment whose start time, end time or notes is null, the field of the form is
  the empty string.
\<close>

theorem create_mode_defaults_and_null_coercion:
  "defaultValues None =
     \<lparr> name = '''', cleaning_date = '''', start_time = Some '''', end_time = Some '''',
       status = ''Da Fare'', payment_status = ''Da Pagare'', notes = Some '''',
       employee_ids = [] \<rparr>
   \<and> defaultValues_p0 None = defaultValues None
   \<and> form (mount True None emps) = defaultValues None
   \<and> form (mount_p0 True None emps) = defaultValues None
   \<and> form (resetEffect (m\<lparr>isOpen := True, apartment := None\<rparr>)) = defaultValues None
   \<and> form (resetEffect_p0 (m0\<lparr>isOpen := True, apartment := None\<rparr>)) = defaultValues None
   \<and> (apt_start_time a = None \<longrightarrow>
        start_time (defaultValues (Some a)) = Some ''''
        \<and> start_time (defaultValues_p0 (Some a)) = Some '''')
   \<and> (apt_end_time a = None \<longrightarrow>
        end_time (defaultValues (Some a)) = Some ''''
        \<and> end_time (defaultValues_p0 (Some a)) = Some '''')
   \<and> (apt_notes a = None \<longrightarrow>
        notes (defaultValues (Some a)) = Some ''''
        \<and> notes (defaultValues_p0 (Some a)) = Some '''')"
  by (simp add: defaultValues_def defaultValues_p0_def js_or_def mount_def mount_p0_def
      resetEffect_def resetEffect_p0_def)

theorem create_mode_defaults_and_null_coercion_witness:
  "apt_start_time
     \<lparr> apt_id = 1, apt_name = ''Via Roma 1'', apt_cleaning_date = ''2024-05-20'', apt_start_time = None,
       apt_end_time = None, apt_status = ''In Corso'', apt_payment_status = ''Pagato'',
       apt_notes = None, apt_employees = [] \<rparr> = None
   \<and> start_time (defaultValues (Some
     \<lparr> apt_id = 1, apt_name = ''Via Roma 1'', apt_cleaning_date = ''2024-05-20'', apt_start_time = None,
       apt_end_time = None, apt_status = ''In Corso'', apt_payment_status = ''Pagato'',
       apt_notes = None, apt_employees = [] \<rparr>)) = Some ''''
   \<and> end_time (defaultValues_p0 (Some
     \<lparr> apt_id = 1, apt_name = ''Via Roma 1'', apt_cleaning_date = ''2024-05-20'', apt_start_time = None,
       apt_end_time = None, apt_status = ''In Corso'', apt_payment_status = ''Pagato'',
       apt_notes = None, apt_employees = [] \<rparr>)) = Some ''''
   \<and> notes (defaultValues (Some
     \<lparr> apt_id = 1, apt_name = ''Via Roma 1'', apt_cleaning_date = ''2024-05-20'', apt_start_time = None,
       apt_end_time = None, apt_status = ''In Corso'', apt_payment_status = ''Pagato'',
       apt_notes = None, apt_employees = [] \<rparr>)) = Some ''''"
  using create_mode_defaults_and_null_coercion
    [of _ _ _ "\<lparr> apt_id = 1, apt_name = ''Via Roma 1'', apt_cleaning_date = ''2024-05-20'',
       apt_start_time = None, apt_end_time = None, apt_status = ''In Corso'',
       apt_payment_status = ''Pagato'', apt_notes = None, apt_employees = [] \<rparr>"]
  by simp

section \<open>Statistics page and employee card: rendering\<close>

text \<open>
  Claim C8. When the date of the busiest day is the string "N/A", the value shown for
  the busiest day is "N/A"; otherwise it is what the date-formatting function returns
  for that date. The card shows this value.
\<close>

theorem busiest_day_rendering:
  "(bd_date (busiestDay stats) = ''N/A'' \<longrightarrow> formattedBusiestDay fmt stats = ''N/A'')
   \<and> (bd_date (busiestDay stats) \<noteq> ''N/A'' \<longrightarrow>
        formattedBusiestDay fmt stats = fmt (bd_date (busiestDay stats)))
   \<and> fst (busiestDayCard fmt stats) = formattedBusiestDay fmt stats"
  by (simp add: formattedBusiestDay_def busiestDayCard_def)

theorem busiest_day_rendering_witness:
  "formattedBusiestDay rev
     \<lparr> totalOrders = 0, topEmployee = \<lparr>te_name = ''N/A'', te_count = 0\<rparr>,
       orderStatusCounts = [], paymentStatusCounts = [], ordersByMonth = [],
       busiestDay = \<lparr>bd_date = ''N/A'', bd_count = 0\<rparr> \<rparr> = ''N/A''
   \<and> formattedBusiestDay rev
     \<lparr> totalOrders = 42, topEmployee = \<lparr>te_name = ''Maria'', te_count = 9\<rparr>,
       orderStatusCounts = [], paymentStatusCounts = [], ordersByMonth = [(''2024-05'', 12)],
       busiestDay = \<lparr>bd_date = ''2024-05-20'', bd_count = 7\<rparr> \<rparr> = ''02-50-4202''"
  using
    busiest_day_rendering [of
      "\<lparr> totalOrders = 0, topEmployee = \<lparr>te_name = ''N/A'', te_count = 0\<rparr>,
         orderStatusCounts = [], paymentStatusCounts = [], ordersByMonth = [],
         busiestDay = \<lparr>bd_date = ''N/A'', bd_count = 0\<rparr> \<rparr>" rev]
    busiest_day_rendering [of
      "\<lparr> totalOrders = 42, topEmployee = \<lparr>te_name = ''Maria'', te_count = 9\<rparr>,
         orderStatusCounts = [], paymentStatusCounts = [], ordersByMonth = [(''2024-05'', 12)],
         busiestDay = \<lparr>bd_date = ''2024-05-20'', bd_count = 7\<rparr> \<rparr>" rev]
  by simp

text \<open>
  Claim C9. Each count printed with a noun takes the singular noun exactly when the
  count is 1 and the plural noun exactly when it is any other number: the assignment
  count of the employee card (the number of its apartments), the order count of the
  top employee and the order count of the busiest day.
\<close>

theorem noun_singular_iff_count_one:
  "(snd (snd (EmployeeCard e)) = ''ordine assegnato'' \<longleftrightarrow> fst (snd (EmployeeCard e)) = 1)
   \<and> (snd (snd (EmployeeCard e)) = ''ordini assegnati'' \<longleftrightarrow> fst (snd (EmployeeCard e)) \<noteq> 1)
   \<and> fst (snd (EmployeeCard e)) = length (apartments e)
   \<and> (snd (snd (topEmployeeCard stats)) = ''ordine'' \<longleftrightarrow> te_count (topEmployee stats) = 1)
   \<and> (snd (snd (topEmployeeCard stats)) = ''ordini'' \<longleftrightarrow> te_count (topEmployee stats) \<noteq> 1)
   \<and> (snd (snd (busiestDayCard fmt stats)) = ''ordine'' \<longleftrightarrow> bd_count (busiestDay stats) = 1)
   \<and> (snd (snd (busiestDayCard fmt stats)) = ''ordini'' \<longleftrightarrow> bd_count (busiestDay stats) \<noteq> 1)"
  by (simp add: EmployeeCard_def topEmployeeCard_def busiestDayCard_def assignmentCount_def)

section \<open>The two variants compute the same\<close>

lemma defaultValues_p0_eq: "defaultValues_p0 apt = defaultValues apt"
  by (simp add: defaultValues_p0_def defaultValues_def)

lemma onCheckedChange_p0_eq: "onCheckedChange_p0 = onCheckedChange"
  by (intro ext) (simp add: onCheckedChange_p0_def onCheckedChange_def)

section \<open>The employee checklist under clicks\<close>

lemma set_click_checkbox:
  "set (click_checkbox onCheckedChange c fv)
     = (if c \<in> set fv then set fv - {c} else insert c (set fv))"
  by (auto simp: click_checkbox_def onCheckedChange_def checked_def)

lemma distinct_click_checkbox:
  "distinct fv \<Longrightarrow> distinct (click_checkbox onCheckedChange c fv)"
  by (simp add: click_checkbox_def onCheckedChange_def checked_def)

lemma checked_click_checkbox:
  "checked (click_checkbox onCheckedChange c fv) d
     \<longleftrightarrow> (if d = c then \<not> checked fv c else checked fv d)"
  by (auto simp: click_checkbox_def onCheckedChange_def checked_def)

lemma distinct_fold_click:
  "distinct fv \<Longrightarrow> distinct (fold (click_checkbox onCheckedChange) cs fv)"
  by (induction cs arbitrary: fv) (simp_all add: distinct_click_checkbox)

lemma checked_fold_click:
  "checked (fold (click_checkbox onCheckedChange) cs fv) d
     \<longleftrightarrow> (checked fv d \<noteq> odd (count_list cs d))"
  by (induction cs arbitrary: fv) (auto simp: checked_click_checkbox)

lemma set_fold_click_subset:
  "set (fold (click_checkbox onCheckedChange) cs fv) \<subseteq> set fv \<union> set cs"
proof (induction cs arbitrary: fv)
  case Nil
  then show ?case by simp
next
  case (Cons c cs)
  have "set (click_checkbox onCheckedChange c fv) \<subseteq> insert c (set fv)"
    by (auto simp: set_click_checkbox)
  with Cons.IH[of "click_checkbox onCheckedChange c fv"] show ?case
    by auto
qed

lemma count_onCheckedChange:
  "count_list (onCheckedChange True fv c) d
     = (if d = c then count_list fv c + 1 else count_list fv d)"
  "count_list (onCheckedChange False fv c) d = (if d = c then 0 else count_list fv d)"
  by (induction fv) (auto simp: onCheckedChange_def)

text \<open>
  Claim C1. Take an apartment whose employees have pairwise different ids, the
  \<^verbatim>\<open>employee_ids\<close> the form starts with for it, and any sequence of clicks on employee
  checkboxes, in either variant. Afterwards \<^verbatim>\<open>employee_ids\<close> has no duplicate, it
  holds exactly the ids whose checkbox is checked, and a checkbox is checked exactly
  when its initial state was flipped an odd number of times. Checking adds one
  occurrence of the id and changes no other count; unchecking leaves no occurrence of
  it and changes no other count; clicking the same checkbox twice gives back the same
  set of ids. When the employees of the apartment and the clicked checkboxes all belong
  to the list of employees shown, \<^verbatim>\<open>employee_ids\<close> holds exactly the ids of the shown
  employees whose checkbox is checked.
\<close>

theorem employee_ids_follow_checkboxes:
  assumes "distinct (map emp_id (apt_employees a))"
    and "handler = onCheckedChange \<or> handler = onCheckedChange_p0"
    and "ids0 = employee_ids (defaultValues (Some a))"
    and "ids = fold (click_checkbox handler) cs ids0"
  shows "distinct ids
    \<and> set ids = {c. checked ids c}
    \<and> (\<forall>c. checked ids c \<longleftrightarrow> (checked ids0 c \<noteq> odd (count_list cs c)))
    \<and> (\<forall>fv c d. count_list (handler True fv c) d
                   = (if d = c then count_list fv c + 1 else count_list fv d))
    \<and> (\<forall>fv c d. count_list (handler False fv c) d = (if d = c then 0 else count_list fv d))
    \<and> (\<forall>c. \<not> checked ids c \<longrightarrow> count_list (click_checkbox handler c ids) c = 1)
    \<and> (\<forall>c. checked ids c \<longrightarrow> count_list (click_checkbox handler c ids) c = 0)
    \<and> (\<forall>fv c. set (click_checkbox handler c (click_checkbox handler c fv)) = set fv)
    \<and> (set ids0 \<subseteq> emp_id ` set emps \<and> set cs \<subseteq> emp_id ` set emps \<longrightarrow>
         set ids = {emp_id e |e. e \<in> set emps \<and> checked ids (emp_id e)})"
proof -
  have h: "handler = onCheckedChange"
    using assms(2) by (auto simp: onCheckedChange_p0_eq)
  have d0: "distinct ids0"
    using assms(1,3) by (simp add: defaultValues_def)
  have 1: "distinct ids"
    using d0 assms(4) h by (simp add: distinct_fold_click)
  have 2: "set ids = {c. checked ids c}"
    by (simp add: checked_def)
  have 3: "\<forall>c. checked ids c \<longleftrightarrow> (checked ids0 c \<noteq> odd (count_list cs c))"
    using assms(4) h by (simp add: checked_fold_click)
  have 4: "\<forall>fv c d. count_list (handler True fv c) d
                   = (if d = c then count_list fv c + 1 else count_list fv d)"
    using h count_onCheckedChange(1) by simp
  have 5: "\<forall>fv c d. count_list (handler False fv c) d = (if d = c then 0 else count_list fv d)"
    using h count_onCheckedChange(2) by simp
  have 6: "\<forall>c. \<not> checked ids c \<longrightarrow> count_list (click_checkbox handler c ids) c = 1"
    using h by (simp add: click_checkbox_def count_onCheckedChange checked_def)
  have 7: "\<forall>c. checked ids c \<longrightarrow> count_list (click_checkbox handler c ids) c = 0"
    using h by (simp add: click_checkbox_def count_onCheckedChange)
  have 8: "\<forall>fv c. set (click_checkbox handler c (click_checkbox handler c fv)) = set fv"
    using h by (auto simp: set_click_checkbox)
  have 9: "set ids0 \<subseteq> emp_id ` set emps \<and> set cs \<subseteq> emp_id ` set emps \<longrightarrow>
         set ids = {emp_id e |e. e \<in> set emps \<and> checked ids (emp_id e)}"
  proof
    assume sub: "set ids0 \<subseteq> emp_id ` set emps \<and> set cs \<subseteq> emp_id ` set emps"
    have "set ids \<subseteq> set ids0 \<union> set cs"
      using assms(4) h set_fold_click_subset[of cs ids0] by simp
    with sub have "set ids \<subseteq> emp_id ` set emps"
      by blast
    then show "set ids = {emp_id e |e. e \<in> set emps \<and> checked ids (emp_id e)}"
      by (auto simp: checked_def)
  qed
  from 1 2 3 4 5 6 7 8 9 show ?thesis by blast
qed

theorem employee_ids_follow_checkboxes_witness:
  "distinct (map emp_id (apt_employees
     \<lparr> apt_id = 1, apt_name = ''Via Roma 1'', apt_cleaning_date = ''2024-05-20'', apt_start_time = None,
       apt_end_time = None, apt_status = ''Da Fare'', apt_payment_status = ''Da Pagare'',
       apt_notes = None,
       apt_employees = [\<lparr>first_name = ''Maria'', last_name = ''Rossi'', emp_id = 1\<rparr>,
                        \<lparr>first_name = ''Luca'', last_name = ''Bianchi'', emp_id = 2\<rparr>] \<rparr>))
   \<and> fold (click_checkbox onCheckedChange) [1, 3, 1, 2]
        (employee_ids (defaultValues (Some
     \<lparr> apt_id = 1, apt_name = ''Via Roma 1'', apt_cleaning_date = ''2024-05-20'', apt_start_time = None,
       apt_end_time = None, apt_status = ''Da Fare'', apt_payment_status = ''Da Pagare'',
       apt_notes = None,
       apt_employees = [\<lparr>first_name = ''Maria'', last_name = ''Rossi'', emp_id = 1\<rparr>,
                        \<lparr>first_name = ''Luca'', last_name = ''Bianchi'', emp_id = 2\<rparr>] \<rparr>)))
      = [3, 1]
   \<and> distinct (fold (click_checkbox onCheckedChange) [1, 3, 1, 2]
        (employee_ids (defaultValues (Some
     \<lparr> apt_id = 1, apt_name = ''Via Roma 1'', apt_cleaning_date = ''2024-05-20'', apt_start_time = None,
       apt_end_time = None, apt_status = ''Da Fare'', apt_payment_status = ''Da Pagare'',
       apt_notes = None,
       apt_employees = [\<lparr>first_name = ''Maria'', last_name = ''Rossi'', emp_id = 1\<rparr>,
                        \<lparr>first_name = ''Luca'', last_name = ''Bianchi'', emp_id = 2\<rparr>] \<rparr>))))
   \<and> \<not> checked (fold (click_checkbox onCheckedChange) [1, 3, 1, 2]
        (employee_ids (defaultValues (Some
     \<lparr> apt_id = 1, apt_name = ''Via Roma 1'', apt_cleaning_date = ''2024-05-20'', apt_start_time = None,
       apt_end_time = None, apt_status = ''Da Fare'', apt_payment_status = ''Da Pagare'',
       apt_notes = None,
       apt_employees = [\<lparr>first_name = ''Maria'', last_name = ''Rossi'', emp_id = 1\<rparr>,
                        \<lparr>first_name = ''Luca'', last_name = ''Bianchi'', emp_id = 2\<rparr>] \<rparr>)))) 2
   \<and> count_list (click_checkbox onCheckedChange 2 (fold (click_checkbox onCheckedChange) [1, 3, 1, 2]
        (employee_ids (defaultValues (Some
     \<lparr> apt_id = 1, apt_name = ''Via Roma 1'', apt_cleaning_date = ''2024-05-20'', apt_start_time = None,
       apt_end_time = None, apt_status = ''Da Fare'', apt_payment_status = ''Da Pagare'',
       apt_notes = None,
       apt_employees = [\<lparr>first_name = ''Maria'', last_name = ''Rossi'', emp_id = 1\<rparr>,
                        \<lparr>first_name = ''Luca'', last_name = ''Bianchi'', emp_id = 2\<rparr>] \<rparr>))))) 2 = 1
   \<and> checked (fold (click_checkbox onCheckedChange) [1, 3, 1, 2]
        (employee_ids (defaultValues (Some
     \<lparr> apt_id = 1, apt_name = ''Via Roma 1'', apt_cleaning_date = ''2024-05-20'', apt_start_time = None,
       apt_end_time = None, apt_status = ''Da Fare'', apt_payment_status = ''Da Pagare'',
       apt_notes = None,
       apt_employees = [\<lparr>first_name = ''Maria'', last_name = ''Rossi'', emp_id = 1\<rparr>,
                        \<lparr>first_name = ''Luca'', last_name = ''Bianchi'', emp_id = 2\<rparr>] \<rparr>)))) 3
   \<and> count_list (click_checkbox onCheckedChange 3 (fold (click_checkbox onCheckedChange) [1, 3, 1, 2]
        (employee_ids (defaultValues (Some
     \<lparr> apt_id = 1, apt_name = ''Via Roma 1'', apt_cleaning_date = ''2024-05-20'', apt_start_time = None,
       apt_end_time = None, apt_status = ''Da Fare'', apt_payment_status = ''Da Pagare'',
       apt_notes = None,
       apt_employees = [\<lparr>first_name = ''Maria'', last_name = ''Rossi'', emp_id = 1\<rparr>,
                        \<lparr>first_name = ''Luca'', last_name = ''Bianchi'', emp_id = 2\<rparr>] \<rparr>))))) 3 = 0
   \<and> set (fold (click_checkbox onCheckedChange) [1, 3, 1, 2]
        (employee_ids (defaultValues (Some
     \<lparr> apt_id = 1, apt_name = ''Via Roma 1'', apt_cleaning_date = ''2024-05-20'', apt_start_time = None,
       apt_end_time = None, apt_status = ''Da Fare'', apt_payment_status = ''Da Pagare'',
       apt_notes = None,
       apt_employees = [\<lparr>first_name = ''Maria'', last_name = ''Rossi'', emp_id = 1\<rparr>,
                        \<lparr>first_name = ''Luca'', last_name = ''Bianchi'', emp_id = 2\<rparr>] \<rparr>))))
      = {emp_id e |e. e \<in> set
       [\<lparr>first_name = ''Maria'', last_name = ''Rossi'', emp_id = 1\<rparr>,
        \<lparr>first_name = ''Luca'', last_name = ''Bianchi'', emp_id = 2\<rparr>,
        \<lparr>first_name = ''Anna'', last_name = ''Verdi'', emp_id = 3\<rparr>]
         \<and> checked (fold (click_checkbox onCheckedChange) [1, 3, 1, 2]
        (employee_ids (defaultValues (Some
     \<lparr> apt_id = 1, apt_name = ''Via Roma 1'', apt_cleaning_date = ''2024-05-20'', apt_start_time = None,
       apt_end_time = None, apt_status = ''Da Fare'', apt_payment_status = ''Da Pagare'',
       apt_notes = None,
       apt_employees = [\<lparr>first_name = ''Maria'', last_name = ''Rossi'', emp_id = 1\<rparr>,
                        \<lparr>first_name = ''Luca'', last_name = ''Bianchi'', emp_id = 2\<rparr>] \<rparr>)))) (emp_id e)}"
proof -
  let ?a = "\<lparr> apt_id = 1, apt_name = ''Via Roma 1'', apt_cleaning_date = ''2024-05-20'', apt_start_time = None,
       apt_end_time = None, apt_status = ''Da Fare'', apt_payment_status = ''Da Pagare'',
       apt_notes = None,
       apt_employees = [\<lparr>first_name = ''Maria'', last_name = ''Rossi'', emp_id = 1\<rparr>,
                        \<lparr>first_name = ''Luca'', last_name = ''Bianchi'', emp_id = 2\<rparr>] \<rparr>"
  let ?emps = "[\<lparr>first_name = ''Maria'', last_name = ''Rossi'', emp_id = 1\<rparr>,
        \<lparr>first_name = ''Luca'', last_name = ''Bianchi'', emp_id = 2\<rparr>,
        \<lparr>first_name = ''Anna'', last_name = ''Verdi'', emp_id = 3\<rparr>]"
  let ?ids = "fold (click_checkbox onCheckedChange) [1, 3, 1, 2]
        (employee_ids (defaultValues (Some ?a)))"
  have d: "distinct (map emp_id (apt_employees ?a))"
    by simp
  have h: "onCheckedChange = onCheckedChange \<or> onCheckedChange = onCheckedChange_p0"
    by simp
  have ids: "?ids = [3, 1]"
    by (simp add: defaultValues_def click_checkbox_def onCheckedChange_def checked_def)
  have sub: "set (employee_ids (defaultValues (Some ?a))) \<subseteq> emp_id ` set ?emps
      \<and> set [1, 3, 1, 2] \<subseteq> emp_id ` set ?emps"
    by (simp add: defaultValues_def)
  note t = employee_ids_follow_checkboxes [of ?a onCheckedChange _ _ "[1, 3, 1, 2]" ?emps,
      OF d h refl refl]
  from t have c3: "distinct ?ids"
    by blast
  have c4: "\<not> checked ?ids 2" and c6: "checked ?ids 3"
    unfolding ids by (simp_all add: checked_def)
  from t c4 have c5: "count_list (click_checkbox onCheckedChange 2 ?ids) 2 = 1"
    by blast
  from t c6 have c7: "count_list (click_checkbox onCheckedChange 3 ?ids) 3 = 0"
    by blast
  from t sub have c8: "set ?ids = {emp_id e |e. e \<in> set ?emps \<and> checked ?ids (emp_id e)}"
    by blast
  show ?thesis
    by (intro conjI d ids c3 c4 c5 c6 c7 c8)
qed

section \<open>Reset on a new target apartment\<close>

lemma js_or_empty: "js_or x '''' = (case x of None \<Rightarrow> '''' | Some s \<Rightarrow> s)"
  by (simp add: js_or_def split: option.splits)

lemma js_or_nonempty: "s \<noteq> '''' \<Longrightarrow> js_or (Some s) d = s"
  by (simp add: js_or_def)

lemma defaultValues_Some:
  "apartment_typed b \<Longrightarrow> defaultValues (Some b) = apartment_values b"
  by (auto simp: defaultValues_def apartment_values_def apartment_typed_def statuses_def
      payment_statuses_def js_or_empty js_or_nonempty)

lemma form_render_changed:
  "\<not> (isOpen m \<and> same_reference apt (apartment m)) \<Longrightarrow>
     form (render True apt emps m) = defaultValues (map_option snd apt)
     \<and> employeeSearch (render True apt emps m) = ''''"
  by (auto simp: render_def resetEffect_def)

lemma form_render_p0_changed:
  "\<not> (isOpen m \<and> same_reference apt (apartment m)) \<Longrightarrow>
     form (render_p0 True apt emps m) = defaultValues (map_option snd apt)"
  by (auto simp: render_p0_def resetEffect_p0_def defaultValues_p0_eq)

lemma changed_reference:
  "prev = None \<or> (\<exists>rA A. prev = Some (rA, A) \<and> rA \<noteq> rB) \<Longrightarrow>
     \<not> same_reference (Some (rB, B)) prev"
  by auto

lemma changed_identifier:
  "\<exists>rA A. prev = Some (rA, A) \<and> apt_id A \<noteq> apt_id B \<and> (rA = rB \<longrightarrow> A = B) \<Longrightarrow>
     \<not> same_reference (Some (rB, B)) prev"
  by auto

lemma changed_to_none: "\<exists>ob. prev = Some ob \<Longrightarrow> \<not> same_reference None prev"
  by auto

text \<open>
  Claim C2. When the modal is rendered open on the apartment object B, and before that
  it was closed, or open with no apartment, or open on another object A, then every
  field of the form holds the value of B (a null optional field as the empty text) and
  the employee checklist holds the ids of the employees of B, whatever the form held
  before and also when A and B have equal content; the search box of the first
  variant is empty, so the whole checklist shows. In particular this holds when A and
  B carry different identifiers, an object having one content. The same holds when the
  modal is mounted open on B. When it is rendered open with no apartment, after being
  closed or open on an apartment, every field holds its create-mode default. B is an
  apartment whose status and payment status are values of their enumerations.
\<close>

theorem reset_shows_target_apartment:
  "(apartment_typed B
      \<and> (\<not> isOpen m \<or> apartment m = None
           \<or> (\<exists>rA A. apartment m = Some (rA, A) \<and> rA \<noteq> rB)) \<longrightarrow>
      form (step lc (Render True (Some (rB, B)) emps) m) = apartment_values B
      \<and> employeeSearch (step lc (Render True (Some (rB, B)) emps) m) = '''')
   \<and> (apartment_typed B
      \<and> (\<not> isOpen m0 \<or> apartment m0 = None
           \<or> (\<exists>rA A. apartment m0 = Some (rA, A) \<and> rA \<noteq> rB)) \<longrightarrow>
      form (step_p0 (Render True (Some (rB, B)) emps) m0) = apartment_values B)
   \<and> (apartment_typed B
      \<and> (\<exists>rA A. apartment m = Some (rA, A) \<and> apt_id A \<noteq> apt_id B \<and> (rA = rB \<longrightarrow> A = B)) \<longrightarrow>
      form (step lc (Render True (Some (rB, B)) emps) m) = apartment_values B
      \<and> employeeSearch (step lc (Render True (Some (rB, B)) emps) m) = '''')
   \<and> (apartment_typed B
      \<and> (\<exists>rA A. apartment m0 = Some (rA, A) \<and> apt_id A \<noteq> apt_id B \<and> (rA = rB \<longrightarrow> A = B)) \<longrightarrow>
      form (step_p0 (Render True (Some (rB, B)) emps) m0) = apartment_values B)
   \<and> (apartment_typed B \<longrightarrow>
      form (mount True (Some (rB, B)) emps) = apartment_values B
      \<and> form (mount_p0 True (Some (rB, B)) emps) = apartment_values B)
   \<and> (\<not> isOpen m \<or> (\<exists>ob. apartment m = Some ob) \<longrightarrow>
      form (step lc (Render True None emps) m) = defaultValues None)
   \<and> (\<not> isOpen m0 \<or> (\<exists>ob. apartment m0 = Some ob) \<longrightarrow>
      form (step_p0 (Render True None emps) m0) = defaultValues None)"
proof -
  have s: "step lc (Render True apt emps) m = render True apt emps m"
    and s0: "step_p0 (Render True apt emps) m0 = render_p0 True apt emps m0" for apt
    by (simp_all add: step_def step_p0_def)
  have 1: "apartment_typed B
      \<and> (\<not> isOpen m \<or> apartment m = None
           \<or> (\<exists>rA A. apartment m = Some (rA, A) \<and> rA \<noteq> rB)) \<longrightarrow>
      form (step lc (Render True (Some (rB, B)) emps) m) = apartment_values B
      \<and> employeeSearch (step lc (Render True (Some (rB, B)) emps) m) = ''''"
  proof
    assume h: "apartment_typed B
      \<and> (\<not> isOpen m \<or> apartment m = None
           \<or> (\<exists>rA A. apartment m = Some (rA, A) \<and> rA \<noteq> rB))"
    then have "\<not> (isOpen m \<and> same_reference (Some (rB, B)) (apartment m))"
      using changed_reference[of "apartment m" rB B] by blast
    from form_render_changed[OF this, of emps] h
    show "form (step lc (Render True (Some (rB, B)) emps) m) = apartment_values B
      \<and> employeeSearch (step lc (Render True (Some (rB, B)) emps) m) = ''''"
      by (simp add: s defaultValues_Some)
  qed
  have 2: "apartment_typed B
      \<and> (\<not> isOpen m0 \<or> apartment m0 = None
           \<or> (\<exists>rA A. apartment m0 = Some (rA, A) \<and> rA \<noteq> rB)) \<longrightarrow>
      form (step_p0 (Render True (Some (rB, B)) emps) m0) = apartment_values B"
  proof
    assume h: "apartment_typed B
      \<and> (\<not> isOpen m0 \<or> apartment m0 = None
           \<or> (\<exists>rA A. apartment m0 = Some (rA, A) \<and> rA \<noteq> rB))"
    then have "\<not> (isOpen m0 \<and> same_reference (Some (rB, B)) (apartment m0))"
      using changed_reference[of "apartment m0" rB B] by blast
    from form_render_p0_changed[OF this, of emps] h
    show "form (step_p0 (Render True (Some (rB, B)) emps) m0) = apartment_values B"
      by (simp add: s0 defaultValues_Some)
  qed
  have 3: "apartment_typed B
      \<and> (\<exists>rA A. apartment m = Some (rA, A) \<and> apt_id A \<noteq> apt_id B \<and> (rA = rB \<longrightarrow> A = B)) \<longrightarrow>
      form (step lc (Render True (Some (rB, B)) emps) m) = apartment_values B
      \<and> employeeSearch (step lc (Render True (Some (rB, B)) emps) m) = ''''"
  proof
    assume h: "apartment_typed B
      \<and> (\<exists>rA A. apartment m = Some (rA, A) \<and> apt_id A \<noteq> apt_id B \<and> (rA = rB \<longrightarrow> A = B))"
    then have "\<not> (isOpen m \<and> same_reference (Some (rB, B)) (apartment m))"
      using changed_identifier[of "apartment m" B rB] by blast
    from form_render_changed[OF this, of emps] h
    show "form (step lc (Render True (Some (rB, B)) emps) m) = apartment_values B
      \<and> employeeSearch (step lc (Render True (Some (rB, B)) emps) m) = ''''"
      by (simp add: s defaultValues_Some)
  qed
  have 4: "apartment_typed B
      \<and> (\<exists>rA A. apartment m0 = Some (rA, A) \<and> apt_id A \<noteq> apt_id B \<and> (rA = rB \<longrightarrow> A = B)) \<longrightarrow>
      form (step_p0 (Render True (Some (rB, B)) emps) m0) = apartment_values B"
  proof
    assume h: "apartment_typed B
      \<and> (\<exists>rA A. apartment m0 = Some (rA, A) \<and> apt_id A \<noteq> apt_id B \<and> (rA = rB \<longrightarrow> A = B))"
    then have "\<not> (isOpen m0 \<and> same_reference (Some (rB, B)) (apartment m0))"
      using changed_identifier[of "apartment m0" B rB] by blast
    from form_render_p0_changed[OF this, of emps] h
    show "form (step_p0 (Render True (Some (rB, B)) emps) m0) = apartment_values B"
      by (simp add: s0 defaultValues_Some)
  qed
  have 5: "apartment_typed B \<longrightarrow>
      form (mount True (Some (rB, B)) emps) = apartment_values B
      \<and> form (mount_p0 True (Some (rB, B)) emps) = apartment_values B"
    by (simp add: mount_def mount_p0_def resetEffect_def resetEffect_p0_def
        defaultValues_p0_eq defaultValues_Some)
  have 6: "\<not> isOpen m \<or> (\<exists>ob. apartment m = Some ob) \<longrightarrow>
      form (step lc (Render True None emps) m) = defaultValues None"
  proof
    assume "\<not> isOpen m \<or> (\<exists>ob. apartment m = Some ob)"
    then have "\<not> (isOpen m \<and> same_reference None (apartment m))"
      using changed_to_none[of "apartment m"] by blast
    from form_render_changed[OF this, of emps]
    show "form (step lc (Render True None emps) m) = defaultValues None"
      by (simp add: s)
  qed
  have 7: "\<not> isOpen m0 \<or> (\<exists>ob. apartment m0 = Some ob) \<longrightarrow>
      form (step_p0 (Render True None emps) m0) = defaultValues None"
  proof
    assume "\<not> isOpen m0 \<or> (\<exists>ob. apartment m0 = Some ob)"
    then have "\<not> (isOpen m0 \<and> same_reference None (apartment m0))"
      using changed_to_none[of "apartment m0"] by blast
    from form_render_p0_changed[OF this, of emps]
    show "form (step_p0 (Render True None emps) m0) = defaultValues None"
      by (simp add: s0)
  qed
  from 1 2 3 4 5 6 7 show ?thesis by blast
qed

text \<open>
  The two apartments of the example differ in their identifier only; the draft of the
  first (a changed name, an unchecked employee) is gone once the second is the target.
\<close>

theorem reset_shows_target_apartment_witness:
  "apartment_typed
     \<lparr> apt_id = 2, apt_name = ''Via Roma 1'', apt_cleaning_date = ''2024-05-20'',
       apt_start_time = Some ''09:00'', apt_end_time = None, apt_status = ''Fatto'',
       apt_payment_status = ''Pagato'', apt_notes = None,
       apt_employees = [\<lparr>first_name = ''Luca'', last_name = ''Bianchi'', emp_id = 2\<rparr>] \<rparr>
   \<and> isOpen (step toLowerCase_sample (ClickCheckbox 2)
         (step toLowerCase_sample (ChangeName ''bozza'')
           (mount True (Some (10,
     \<lparr> apt_id = 1, apt_name = ''Via Roma 1'', apt_cleaning_date = ''2024-05-20'',
       apt_start_time = Some ''09:00'', apt_end_time = None, apt_status = ''Fatto'',
       apt_payment_status = ''Pagato'', apt_notes = None,
       apt_employees = [\<lparr>first_name = ''Luca'', last_name = ''Bianchi'', emp_id = 2\<rparr>] \<rparr>))
             [\<lparr>first_name = ''Luca'', last_name = ''Bianchi'', emp_id = 2\<rparr>])))
   \<and> form (step toLowerCase_sample (ClickCheckbox 2)
         (step toLowerCase_sample (ChangeName ''bozza'')
           (mount True (Some (10,
     \<lparr> apt_id = 1, apt_name = ''Via Roma 1'', apt_cleaning_date = ''2024-05-20'',
       apt_start_time = Some ''09:00'', apt_end_time = None, apt_status = ''Fatto'',
       apt_payment_status = ''Pagato'', apt_notes = None,
       apt_employees = [\<lparr>first_name = ''Luca'', last_name = ''Bianchi'', emp_id = 2\<rparr>] \<rparr>))
             [\<lparr>first_name = ''Luca'', last_name = ''Bianchi'', emp_id = 2\<rparr>])))
     = \<lparr> name = ''bozza'', cleaning_date = ''2024-05-20'', start_time = Some ''09:00'',
         end_time = Some '''', status = ''Fatto'', payment_status = ''Pagato'',
         notes = Some '''', employee_ids = [] \<rparr>
   \<and> form (step toLowerCase_sample (Render True (Some (11,
     \<lparr> apt_id = 2, apt_name = ''Via Roma 1'', apt_cleaning_date = ''2024-05-20'',
       apt_start_time = Some ''09:00'', apt_end_time = None, apt_status = ''Fatto'',
       apt_payment_status = ''Pagato'', apt_notes = None,
       apt_employees = [\<lparr>first_name = ''Luca'', last_name = ''Bianchi'', emp_id = 2\<rparr>] \<rparr>)) [])
       (step toLowerCase_sample (ClickCheckbox 2)
         (step toLowerCase_sample (ChangeName ''bozza'')
           (mount True (Some (10,
     \<lparr> apt_id = 1, apt_name = ''Via Roma 1'', apt_cleaning_date = ''2024-05-20'',
       apt_start_time = Some ''09:00'', apt_end_time = None, apt_status = ''Fatto'',
       apt_payment_status = ''Pagato'', apt_notes = None,
       apt_employees = [\<lparr>first_name = ''Luca'', last_name = ''Bianchi'', emp_id = 2\<rparr>] \<rparr>))
             [\<lparr>first_name = ''Luca'', last_name = ''Bianchi'', emp_id = 2\<rparr>]))))
     = \<lparr> name = ''Via Roma 1'', cleaning_date = ''2024-05-20'', start_time = Some ''09:00'',
         end_time = Some '''', status = ''Fatto'', payment_status = ''Pagato'',
         notes = Some '''', employee_ids = [2] \<rparr>"
proof -
  let ?A = "\<lparr> apt_id = 1, apt_name = ''Via Roma 1'', apt_cleaning_date = ''2024-05-20'',
       apt_start_time = Some ''09:00'', apt_end_time = None, apt_status = ''Fatto'',
       apt_payment_status = ''Pagato'', apt_notes = None,
       apt_employees = [\<lparr>first_name = ''Luca'', last_name = ''Bianchi'', emp_id = 2\<rparr>] \<rparr>"
  let ?B = "\<lparr> apt_id = 2, apt_name = ''Via Roma 1'', apt_cleaning_date = ''2024-05-20'',
       apt_start_time = Some ''09:00'', apt_end_time = None, apt_status = ''Fatto'',
       apt_payment_status = ''Pagato'', apt_notes = None,
       apt_employees = [\<lparr>first_name = ''Luca'', last_name = ''Bianchi'', emp_id = 2\<rparr>] \<rparr>"
  let ?m = "step toLowerCase_sample (ClickCheckbox 2)
         (step toLowerCase_sample (ChangeName ''bozza'')
           (mount True (Some (10,
     ?A))
             [\<lparr>first_name = ''Luca'', last_name = ''Bianchi'', emp_id = 2\<rparr>]))"
  have t: "apartment_typed ?B"
    by (simp add: apartment_typed_def statuses_def payment_statuses_def)
  have m: "?m = \<lparr> isOpen = True, apartment = Some (10, ?A),
      employees = [\<lparr>first_name = ''Luca'', last_name = ''Bianchi'', emp_id = 2\<rparr>],
      form = \<lparr> name = ''bozza'', cleaning_date = ''2024-05-20'', start_time = Some ''09:00'',
         end_time = Some '''', status = ''Fatto'', payment_status = ''Pagato'',
         notes = Some '''', employee_ids = [] \<rparr>,
      log = [], showAddEmployee = False,
      newEmployee = \<lparr>first_name = '''', last_name = ''''\<rparr>, employeeSearch = '''' \<rparr>"
    by (simp add: step_def mount_def resetEffect_def defaultValues_def js_or_def
        filteredEmployees_def click_checkbox_def onCheckedChange_def checked_def)
  have o: "isOpen ?m" and f: "form ?m
     = \<lparr> name = ''bozza'', cleaning_date = ''2024-05-20'', start_time = Some ''09:00'',
         end_time = Some '''', status = ''Fatto'', payment_status = ''Pagato'',
         notes = Some '''', employee_ids = [] \<rparr>"
    unfolding m by simp_all
  have h: "\<not> isOpen ?m \<or> apartment ?m = None
      \<or> (\<exists>rA A. apartment ?m = Some (rA, A) \<and> rA \<noteq> 11)"
    unfolding m by simp
  from reset_shows_target_apartment [where B = ?B and m = ?m and rB = 11
      and lc = toLowerCase_sample and emps = "[]"] t h
  have "form (step toLowerCase_sample (Render True (Some (11, ?B)) []) ?m) = apartment_values ?B"
    by blast
  then have r: "form (step toLowerCase_sample (Render True (Some (11, ?B)) []) ?m)
     = \<lparr> name = ''Via Roma 1'', cleaning_date = ''2024-05-20'', start_time = Some ''09:00'',
         end_time = Some '''', status = ''Fatto'', payment_status = ''Pagato'',
         notes = Some '''', employee_ids = [2] \<rparr>"
    by (simp add: apartment_values_def)
  show ?thesis
    by (intro conjI t o f r)
qed

section \<open>Equivalence of the two variants\<close>

lemma view_mount: "view (mount io apt emps) = mount_p0 io apt emps"
  by (simp add: view_def mount_def mount_p0_def resetEffect_def resetEffect_p0_def
      defaultValues_p0_eq)

lemma search_mount: "employeeSearch (mount io apt emps) = ''''"
  by (simp add: mount_def resetEffect_def)

lemma view_render: "view (render io apt emps m) = render_p0 io apt emps (view m)"
  by (simp add: view_def render_def render_p0_def resetEffect_def resetEffect_p0_def
      defaultValues_p0_eq)

lemma search_render: "employeeSearch m = '''' \<Longrightarrow> employeeSearch (render io apt emps m) = ''''"
  by (simp add: render_def resetEffect_def)

lemma view_interact:
  "shared ev \<Longrightarrow> employeeSearch m = '''' \<Longrightarrow> view (interact lc ev m) = interact_p0 ev (view m)"
  by (cases ev)
     (simp_all add: view_def filteredEmployees_def handleSubmit_p0_eq onCheckedChange_p0_eq)

lemma search_interact:
  "shared ev \<Longrightarrow> employeeSearch m = '''' \<Longrightarrow> employeeSearch (interact lc ev m) = ''''"
  by (cases ev) simp_all

lemma isOpen_view: "isOpen (view m) = isOpen m"
  by (simp add: view_def)

lemma view_step:
  "shared ev \<Longrightarrow> employeeSearch m = '''' \<Longrightarrow> view (step lc ev m) = step_p0 ev (view m)"
  by (cases ev)
     (simp_all add: step_def step_p0_def view_render view_interact isOpen_view
        del: interact.simps interact_p0.simps)

lemma search_step:
  "shared ev \<Longrightarrow> employeeSearch m = '''' \<Longrightarrow> employeeSearch (step lc ev m) = ''''"
  by (cases ev)
     (simp_all add: step_def search_render search_interact del: interact.simps)

lemma view_fold_step:
  "list_all shared evs \<Longrightarrow> employeeSearch m = '''' \<Longrightarrow>
     view (fold (step lc) evs m) = fold step_p0 evs (view m)"
proof (induction evs arbitrary: m)
  case Nil
  then show ?case by simp
next
  case (Cons ev evs)
  then show ?case
    by (simp add: view_step search_step)
qed

text \<open>
  Claim C3. The two variants have the same validation schema and the same initial and
  reset values. Mounted with the same properties and driven by the same sequence of
  events, none of which uses the search box or the inline employee creation, they
  hold the same properties, the same form values and have made the same calls of the
  submit and close callbacks with the same arguments, after every such sequence.
\<close>

theorem variants_agree_on_shared_events:
  "formSchema_p0 v = formSchema v
   \<and> defaultValues_p0 a = defaultValues a
   \<and> view (mount io apt emps) = mount_p0 io apt emps
   \<and> (list_all shared evs \<longrightarrow>
        view (fold (step lc) evs (mount io apt emps)) = fold step_p0 evs (mount_p0 io apt emps))
   \<and> (list_all shared evs \<longrightarrow>
        form (fold (step lc) evs (mount io apt emps)) = form (fold step_p0 evs (mount_p0 io apt emps))
        \<and> log (fold (step lc) evs (mount io apt emps)) = log (fold step_p0 evs (mount_p0 io apt emps)))"
proof -
  have sim: "list_all shared evs \<longrightarrow>
        view (fold (step lc) evs (mount io apt emps)) = fold step_p0 evs (mount_p0 io apt emps)"
    using view_fold_step[of evs "mount io apt emps" lc] by (simp add: search_mount view_mount)
  have "form (view m) = form m \<and> log (view m) = log m" for m
    by (simp add: view_def)
  with sim have "list_all shared evs \<longrightarrow>
        form (fold (step lc) evs (mount io apt emps)) = form (fold step_p0 evs (mount_p0 io apt emps))
        \<and> log (fold (step lc) evs (mount io apt emps)) = log (fold step_p0 evs (mount_p0 io apt emps))"
    by metis
  with sim show ?thesis
    by (simp add: formSchema_p0_eq defaultValues_p0_eq view_mount)
qed

theorem variants_agree_on_shared_events_witness:
  "list_all shared
     [ChangeName ''Via Roma 1'', ClickSubmit, ChangeCleaningDate ''2024-05-20'',
      ClickCheckbox 1, SelectStatus ''In Corso'', ClickSubmit]
   \<and> log (fold (step toLowerCase_sample)
     [ChangeName ''Via Roma 1'', ClickSubmit, ChangeCleaningDate ''2024-05-20'',
      ClickCheckbox 1, SelectStatus ''In Corso'', ClickSubmit]
     (mount True None [\<lparr>first_name = ''Maria'', last_name = ''Rossi'', emp_id = 1\<rparr>]))
     = log (fold step_p0
     [ChangeName ''Via Roma 1'', ClickSubmit, ChangeCleaningDate ''2024-05-20'',
      ClickCheckbox 1, SelectStatus ''In Corso'', ClickSubmit]
     (mount_p0 True None [\<lparr>first_name = ''Maria'', last_name = ''Rossi'', emp_id = 1\<rparr>]))
   \<and> log (fold step_p0
     [ChangeName ''Via Roma 1'', ClickSubmit, ChangeCleaningDate ''2024-05-20'',
      ClickCheckbox 1, SelectStatus ''In Corso'', ClickSubmit]
     (mount_p0 True None [\<lparr>first_name = ''Maria'', last_name = ''Rossi'', emp_id = 1\<rparr>]))
     = [OnSubmit \<lparr> name = ''Via Roma 1'', cleaning_date = ''2024-05-20'', start_time = Some '''',
         end_time = Some '''', status = ''In Corso'', payment_status = ''Da Pagare'',
         notes = Some '''', employee_ids = [1] \<rparr>]"
proof -
  have "log (fold step_p0
     [ChangeName ''Via Roma 1'', ClickSubmit, ChangeCleaningDate ''2024-05-20'',
      ClickCheckbox 1, SelectStatus ''In Corso'', ClickSubmit]
     (mount_p0 True None [\<lparr>first_name = ''Maria'', last_name = ''Rossi'', emp_id = 1\<rparr>]))
     = [OnSubmit \<lparr> name = ''Via Roma 1'', cleaning_date = ''2024-05-20'', start_time = Some '''',
         end_time = Some '''', status = ''In Corso'', payment_status = ''Da Pagare'',
         notes = Some '''', employee_ids = [1] \<rparr>]"
    by (simp add: mount_p0_def resetEffect_p0_def step_p0_def defaultValues_p0_def js_or_def
        click_checkbox_def onCheckedChange_p0_def checked_def handleSubmit_def formSchema_p0_def
        formSchema_issues_p0_def z_string_min_def z_string_optional_def z_enum_def
        z_array_number_def)
  then show ?thesis
    using variants_agree_on_shared_events
      [where lc = toLowerCase_sample and io = True and apt = None
        and emps = "[\<lparr>first_name = ''Maria'', last_name = ''Rossi'', emp_id = 1\<rparr>]"
        and evs = "[ChangeName ''Via Roma 1'', ClickSubmit, ChangeCleaningDate ''2024-05-20'',
          ClickCheckbox 1, SelectStatus ''In Corso'', ClickSubmit]"]
    by simp
qed

section \<open>Inline employee creation\<close>

lemma newEmployeeSchema_cases:
  "newEmployeeSchema e =
     (if first_name e \<noteq> '''' \<and> last_name e \<noteq> '''' then Inr e
      else Inl (newEmployeeSchema_issues e))"
  by (auto simp: newEmployeeSchema_def newEmployeeSchema_issues_def z_string_min_def)

text \<open>
  Claim C5. When the first name or the last name of the new employee is the empty
  string, \<^verbatim>\<open>handleAddNewEmployee\<close> issues exactly one effect, the notification
  "Nome e cognome sono obbligatori.", and no request. A create-employee request is
  among the effects issued exactly when both names are non-empty, and then it is the
  POST of the two names to /api/employees.
\<close>

theorem blank_name_issues_no_request:
  "(first_name (newEmployee m) = '''' \<or> last_name (newEmployee m) = '''' \<longrightarrow>
      issued m (handleAddNewEmployee api refetch m)
        = [Toast ''Errore'' ''Nome e cognome sono obbligatori.'' (Some ''destructive'')]
      \<and> filter is_request (issued m (handleAddNewEmployee api refetch m)) = [])
   \<and> (filter is_request (issued m (handleAddNewEmployee api refetch m)) \<noteq> [] \<longleftrightarrow>
        first_name (newEmployee m) \<noteq> '''' \<and> last_name (newEmployee m) \<noteq> '''')
   \<and> (first_name (newEmployee m) \<noteq> '''' \<and> last_name (newEmployee m) \<noteq> '''' \<longrightarrow>
        filter is_request (issued m (handleAddNewEmployee api refetch m))
          = [ApiRequest ''POST'' ''/api/employees'' (newEmployee m)])"
  by (simp add: issued_def handleAddNewEmployee_def newEmployeeSchema_cases split: option.splits)

theorem blank_name_issues_no_request_witness:
  "last_name (newEmployee
     ((mount True None [])\<lparr>showAddEmployee := True,
        newEmployee := \<lparr>first_name = ''Maria'', last_name = ''''\<rparr>\<rparr>)) = ''''
   \<and> issued
     ((mount True None [])\<lparr>showAddEmployee := True,
        newEmployee := \<lparr>first_name = ''Maria'', last_name = ''''\<rparr>\<rparr>)
     (handleAddNewEmployee None None
       ((mount True None [])\<lparr>showAddEmployee := True,
          newEmployee := \<lparr>first_name = ''Maria'', last_name = ''''\<rparr>\<rparr>))
     = [Toast ''Errore'' ''Nome e cognome sono obbligatori.'' (Some ''destructive'')]
   \<and> filter is_request (issued
     ((mount True None [])\<lparr>showAddEmployee := True,
        newEmployee := \<lparr>first_name = ''Maria'', last_name = ''Rossi''\<rparr>\<rparr>)
     (handleAddNewEmployee None None
       ((mount True None [])\<lparr>showAddEmployee := True,
          newEmployee := \<lparr>first_name = ''Maria'', last_name = ''Rossi''\<rparr>\<rparr>)))
     = [ApiRequest ''POST'' ''/api/employees'' \<lparr>first_name = ''Maria'', last_name = ''Rossi''\<rparr>]"
  using
    blank_name_issues_no_request
      [of "(mount True None [])\<lparr>showAddEmployee := True,
             newEmployee := \<lparr>first_name = ''Maria'', last_name = ''''\<rparr>\<rparr>" None None]
    blank_name_issues_no_request
      [of "(mount True None [])\<lparr>showAddEmployee := True,
             newEmployee := \<lparr>first_name = ''Maria'', last_name = ''Rossi''\<rparr>\<rparr>" None None]
  by simp

text \<open>
  Claim C6. When both names are non-empty and the create-employee request fails, the
  state after \<^verbatim>\<open>handleAddNewEmployee\<close> is the state before, with two effects added:
  the request and an error notification that carries the message of the failure. On
  an open modal with the sub-form open, the click leaves the sub-form open and the two
  names, the form and the search box as they were. The names or the open flag change
  only when the request and the refresh of the employee list both succeed on valid
  names; in that case both names are cleared and the sub-form is closed.
\<close>

theorem failed_request_keeps_sub_form:
  "(first_name (newEmployee m) \<noteq> '''' \<and> last_name (newEmployee m) \<noteq> '''' \<longrightarrow>
      handleAddNewEmployee (Some msg) refetch m =
        m\<lparr>log := log m @
           [ApiRequest ''POST'' ''/api/employees'' (newEmployee m),
            Toast ''Errore'' (''Errore durante l'' @ [CHR 0x27] @ ''aggiunta: '' @ msg)
              (Some ''destructive'')]\<rparr>)
   \<and> (isOpen m \<and> showAddEmployee m \<and> first_name (newEmployee m) \<noteq> ''''
        \<and> last_name (newEmployee m) \<noteq> '''' \<longrightarrow>
        showAddEmployee (step lc (ClickAddEmployee (Some msg) refetch) m)
        \<and> newEmployee (step lc (ClickAddEmployee (Some msg) refetch) m) = newEmployee m
        \<and> form (step lc (ClickAddEmployee (Some msg) refetch) m) = form m
        \<and> employeeSearch (step lc (ClickAddEmployee (Some msg) refetch) m) = employeeSearch m)
   \<and> (newEmployee (handleAddNewEmployee api refetch m) \<noteq> newEmployee m
        \<or> showAddEmployee (handleAddNewEmployee api refetch m) \<noteq> showAddEmployee m \<longrightarrow>
        api = None \<and> refetch = None
        \<and> first_name (newEmployee m) \<noteq> '''' \<and> last_name (newEmployee m) \<noteq> '''')
   \<and> (first_name (newEmployee m) \<noteq> '''' \<and> last_name (newEmployee m) \<noteq> '''' \<longrightarrow>
        newEmployee (handleAddNewEmployee None None m) = \<lparr>first_name = '''', last_name = ''''\<rparr>
        \<and> \<not> showAddEmployee (handleAddNewEmployee None None m))"
  by (auto simp: step_def handleAddNewEmployee_def newEmployeeSchema_cases split: option.splits)

theorem failed_request_keeps_sub_form_witness:
  "isOpen ((mount True None [])\<lparr>showAddEmployee := True,
        newEmployee := \<lparr>first_name = ''Maria'', last_name = ''Rossi''\<rparr>\<rparr>)
   \<and> showAddEmployee (step toLowerCase_sample (ClickAddEmployee (Some ''500: Internal Server Error'') None)
       ((mount True None [])\<lparr>showAddEmployee := True,
          newEmployee := \<lparr>first_name = ''Maria'', last_name = ''Rossi''\<rparr>\<rparr>))
   \<and> newEmployee (step toLowerCase_sample (ClickAddEmployee (Some ''500: Internal Server Error'') None)
       ((mount True None [])\<lparr>showAddEmployee := True,
          newEmployee := \<lparr>first_name = ''Maria'', last_name = ''Rossi''\<rparr>\<rparr>))
       = \<lparr>first_name = ''Maria'', last_name = ''Rossi''\<rparr>
   \<and> newEmployee (handleAddNewEmployee None None
       ((mount True None [])\<lparr>showAddEmployee := True,
          newEmployee := \<lparr>first_name = ''Maria'', last_name = ''Rossi''\<rparr>\<rparr>))
       = \<lparr>first_name = '''', last_name = ''''\<rparr>"
  using failed_request_keeps_sub_form
      [where m = "(mount True None [])\<lparr>showAddEmployee := True,
             newEmployee := \<lparr>first_name = ''Maria'', last_name = ''Rossi''\<rparr>\<rparr>"
        and msg = "''500: Internal Server Error''" and refetch = None
        and lc = toLowerCase_sample and api = None]
  by (simp add: mount_def resetEffect_def)

section \<open>Employee search\<close>

lemma str_includes_sublist: "str_includes s t \<longleftrightarrow> sublist t s"
  by (induction s) (auto simp: sublist_Cons_right)

lemma of_char_lt_256: "(of_char c :: nat) < 256"
  by (metis of_char_mod_256 mod_less_divisor zero_less_numeral)

lemma toLowerCase_ascii_eq_iff:
  "toLowerCase_ascii a = toLowerCase_ascii b \<longleftrightarrow> eq_ignore_case a b"
proof -
  have inj: "\<And>m n. m < 256 \<Longrightarrow> n < 256 \<Longrightarrow> (char_of (m::nat) :: char) = char_of n \<longleftrightarrow> m = n"
    by (simp add: char_of_eq_iff take_bit_eq_mod)
  have a: "(of_char a :: nat) < 256" and b: "(of_char b :: nat) < 256"
    by (rule of_char_lt_256)+
  have ca: "\<And>n. n < 256 \<Longrightarrow> (char_of (n::nat) = a) \<longleftrightarrow> of_char a = n"
    by (metis char_of_char inj of_char_lt_256)
  have cb: "\<And>n. n < 256 \<Longrightarrow> (char_of (n::nat) = b) \<longleftrightarrow> of_char b = n"
    by (metis char_of_char inj of_char_lt_256)
  have ab: "a = b \<longleftrightarrow> (of_char a :: nat) = of_char b"
    by (metis char_of_char)
  show ?thesis
    using a b
    by (auto simp: toLowerCase_ascii_def eq_ignore_case_def is_upper_def Let_def inj ca cb ab
        eq_commute[of a])
qed

lemma map_toLowerCase_ascii_eq_iff:
  "map toLowerCase_ascii p = map toLowerCase_ascii t \<longleftrightarrow> list_all2 eq_ignore_case p t"
proof -
  have "map toLowerCase_ascii p = map toLowerCase_ascii t
          \<longleftrightarrow> list_all2 (=) (map toLowerCase_ascii p) (map toLowerCase_ascii t)"
    by (simp add: list.rel_eq)
  also have "\<dots> \<longleftrightarrow> list_all2 (\<lambda>x y. toLowerCase_ascii x = toLowerCase_ascii y) p t"
    by (simp add: list_all2_map1 list_all2_map2)
  finally show ?thesis by (simp add: toLowerCase_ascii_eq_iff)
qed

lemma sublist_map_toLowerCase_ascii:
  "sublist (map toLowerCase_ascii t) (map toLowerCase_ascii s) \<longleftrightarrow> contains_ignoring_case s t"
proof
  assume "sublist (map toLowerCase_ascii t) (map toLowerCase_ascii s)"
  then obtain ps ss where "map toLowerCase_ascii s = ps @ map toLowerCase_ascii t @ ss"
    by (auto simp: sublist_def)
  then obtain b r where s: "s = b @ r"
    and "map toLowerCase_ascii r = map toLowerCase_ascii t @ ss"
    by (metis map_eq_append_conv)
  then obtain p a where r: "r = p @ a"
    and "map toLowerCase_ascii p = map toLowerCase_ascii t"
    by (metis map_eq_append_conv)
  then have "list_all2 eq_ignore_case p t"
    by (simp add: map_toLowerCase_ascii_eq_iff)
  with s r show "contains_ignoring_case s t"
    unfolding contains_ignoring_case_def by blast
next
  assume "contains_ignoring_case s t"
  then obtain b p a where s: "s = b @ p @ a" and "list_all2 eq_ignore_case p t"
    unfolding contains_ignoring_case_def by blast
  then have "map toLowerCase_ascii p = map toLowerCase_ascii t"
    by (simp add: map_toLowerCase_ascii_eq_iff)
  with s show "sublist (map toLowerCase_ascii t) (map toLowerCase_ascii s)"
    by (auto simp: sublist_def)
qed

lemma contains_ignoring_case_literal: "sublist t s \<Longrightarrow> contains_ignoring_case s t"
proof -
  assume "sublist t s"
  then obtain b a where "s = b @ t @ a"
    by (auto simp: sublist_def)
  moreover have "list_all2 eq_ignore_case t t"
    by (simp add: list_all2_same eq_ignore_case_def)
  ultimately show ?thesis
    unfolding contains_ignoring_case_def by blast
qed

lemma filteredEmployees_sublist:
  "filteredEmployees lc emps q
     = filter (\<lambda>e. q = '''' \<or> sublist (lc q) (lc (fullName e))) emps"
  by (simp add: filteredEmployees_def str_includes_sublist)

lemma ascii_text_not_sampled: "ascii_text s \<Longrightarrow> map_of toLowerCase_values s = None"
  by (auto simp: ascii_text_def toLowerCase_values_def greek_NIKOS_def greek_MELAS_def
      greek_SIGMA_def)

lemma lowers_ascii_sample: "lowers_ascii toLowerCase_sample"
  by (simp add: lowers_ascii_def toLowerCase_sample_def ascii_text_not_sampled)

text \<open>
  Claim C7, as amended. For every list of employees and every search string, the
  checklist shows exactly the employees, in their order, whose lower-cased name
  "first last" contains the lower-cased search string as a contiguous part, where
  lower-casing is what the built-in of the runtime returns; for the empty search
  string it shows the list as it is. When the built-in lower-cases ASCII text letter
  by letter and the search string and the names are ASCII text, these are exactly the
  employees whose name contains the search string up to the case of the letters.
\<close>

theorem search_filters_by_lowercased_name:
  "filteredEmployees lc emps q
     = filter (\<lambda>e. q = '''' \<or> sublist (lc q) (lc (fullName e))) emps
   \<and> filteredEmployees lc emps '''' = emps
   \<and> fullName e = first_name e @ '' '' @ last_name e
   \<and> (lowers_ascii lc \<and> ascii_text q \<and> list_all (\<lambda>e. ascii_text (fullName e)) emps \<longrightarrow>
        filteredEmployees lc emps q
          = filter (\<lambda>e. contains_ignoring_case (fullName e) q) emps)"
proof -
  have 1: "filteredEmployees lc emps '''' = emps"
    by (simp add: filteredEmployees_def)
  have 2: "lowers_ascii lc \<and> ascii_text q \<and> list_all (\<lambda>e. ascii_text (fullName e)) emps \<longrightarrow>
        filteredEmployees lc emps q
          = filter (\<lambda>e. contains_ignoring_case (fullName e) q) emps"
  proof
    assume h: "lowers_ascii lc \<and> ascii_text q \<and> list_all (\<lambda>e. ascii_text (fullName e)) emps"
    then have q: "lc q = map toLowerCase_ascii q"
      by (simp add: lowers_ascii_def)
    have n: "lc (fullName e) = map toLowerCase_ascii (fullName e)" if "e \<in> set emps" for e
      using h that by (simp add: lowers_ascii_def list_all_iff)
    have "filter (\<lambda>e. q = '''' \<or> sublist (lc q) (lc (fullName e))) emps
            = filter (\<lambda>e. contains_ignoring_case (fullName e) q) emps"
    proof (rule filter_cong[OF refl])
      fix e assume e: "e \<in> set emps"
      have "sublist (lc q) (lc (fullName e)) \<longleftrightarrow> contains_ignoring_case (fullName e) q"
        by (simp add: q n[OF e] sublist_map_toLowerCase_ascii)
      moreover have "q = '''' \<Longrightarrow> contains_ignoring_case (fullName e) q"
        by (simp add: contains_ignoring_case_literal)
      ultimately show "(q = '''' \<or> sublist (lc q) (lc (fullName e)))
          \<longleftrightarrow> contains_ignoring_case (fullName e) q"
        by blast
    qed
    then show "filteredEmployees lc emps q
          = filter (\<lambda>e. contains_ignoring_case (fullName e) q) emps"
      by (simp add: filteredEmployees_sublist)
  qed
  from 1 2 show ?thesis
    by (simp add: filteredEmployees_sublist fullName_def)
qed

theorem search_filters_by_lowercased_name_witness:
  "lowers_ascii toLowerCase_sample
   \<and> ascii_text ''a R''
   \<and> list_all (\<lambda>e. ascii_text (fullName e))
       [\<lparr>first_name = ''Maria'', last_name = ''Rossi'', emp_id = 1\<rparr>,
        \<lparr>first_name = ''Luca'', last_name = ''Bianchi'', emp_id = 2\<rparr>]
   \<and> filteredEmployees toLowerCase_sample
       [\<lparr>first_name = ''Maria'', last_name = ''Rossi'', emp_id = 1\<rparr>,
        \<lparr>first_name = ''Luca'', last_name = ''Bianchi'', emp_id = 2\<rparr>] ''a R''
     = filter (\<lambda>e. contains_ignoring_case (fullName e) ''a R'')
       [\<lparr>first_name = ''Maria'', last_name = ''Rossi'', emp_id = 1\<rparr>,
        \<lparr>first_name = ''Luca'', last_name = ''Bianchi'', emp_id = 2\<rparr>]
   \<and> filteredEmployees toLowerCase_sample
       [\<lparr>first_name = ''Maria'', last_name = ''Rossi'', emp_id = 1\<rparr>,
        \<lparr>first_name = ''Luca'', last_name = ''Bianchi'', emp_id = 2\<rparr>] ''a R''
     = [\<lparr>first_name = ''Maria'', last_name = ''Rossi'', emp_id = 1\<rparr>]"
proof -
  let ?emps = "[\<lparr>first_name = ''Maria'', last_name = ''Rossi'', emp_id = 1\<rparr>,
        \<lparr>first_name = ''Luca'', last_name = ''Bianchi'', emp_id = 2\<rparr>]"
  have a: "ascii_text ''a R''"
    by (simp add: ascii_text_def)
  have b: "list_all (\<lambda>e. ascii_text (fullName e)) ?emps"
    by (simp add: ascii_text_def fullName_def)
  from search_filters_by_lowercased_name [where lc = toLowerCase_sample and q = "''a R''"
      and emps = ?emps] lowers_ascii_sample a b
  have c: "filteredEmployees toLowerCase_sample ?emps ''a R''
     = filter (\<lambda>e. contains_ignoring_case (fullName e) ''a R'') ?emps"
    by blast
  have d: "filteredEmployees toLowerCase_sample ?emps ''a R''
     = [\<lparr>first_name = ''Maria'', last_name = ''Rossi'', emp_id = 1\<rparr>]"
    by code_simp
  show ?thesis
    by (intro conjI lowers_ascii_sample a b c d)
qed

text \<open>
  The claim as first stated fails on Greek capitals. The name "NIKOS MELAS" contains the
  search string, a capital sigma, as it is written, so it contains it up to case; the
  built-in lower-cases the sigmas of the name to the final form and the sigma of the
  search string to the other form, and the checklist shows no employee.
\<close>

theorem search_final_sigma_counterexample:
  "sublist greek_SIGMA (fullName \<lparr>first_name = greek_NIKOS, last_name = greek_MELAS, emp_id = 7\<rparr>)
   \<and> contains_ignoring_case
       (fullName \<lparr>first_name = greek_NIKOS, last_name = greek_MELAS, emp_id = 7\<rparr>) greek_SIGMA
   \<and> filteredEmployees toLowerCase_sample
       [\<lparr>first_name = greek_NIKOS, last_name = greek_MELAS, emp_id = 7\<rparr>] greek_SIGMA = []"
proof -
  have 1: "sublist greek_SIGMA
      (fullName \<lparr>first_name = greek_NIKOS, last_name = greek_MELAS, emp_id = 7\<rparr>)"
    by (simp add: fullName_def greek_SIGMA_def greek_NIKOS_def greek_MELAS_def
        sublist_Cons_right)
  have 2: "filteredEmployees toLowerCase_sample
       [\<lparr>first_name = greek_NIKOS, last_name = greek_MELAS, emp_id = 7\<rparr>] greek_SIGMA = []"
    by code_simp
  from 1 2 show ?thesis
    by (simp add: contains_ignoring_case_literal)
qed

end
